theory Spec2Isabelle
  imports Complex_Main "HOL-Library.Sublist"
begin

section \<open>JavaScript values\<close>

text \<open>
  The filter engine of \<^verbatim>\<open>src/utils/filterUtils.ts\<close> is typed in TypeScript, but every
  record value reaches the evaluators as \<^verbatim>\<open>any\<close> and every condition value through a
  cast, so at run time the functions receive arbitrary JavaScript data. The embedding
  therefore works on a datatype of run-time values. Arrays and objects carry the
  identity of their reference, which is what \<^verbatim>\<open>===\<close> compares.

  A string of the model is a sequence of ASCII characters (one \<open>char\<close> per UTF-16 code
  unit). A number is an IEEE double. The code only compares numbers, it never computes with
  them, so a finite double is represented by the rational it denotes (both zeros
  by \<open>0\<close>, which \<^verbatim>\<open>===\<close> and the relational operators do not distinguish).
\<close>

datatype jsnum = NaN | PosInf | NegInf | Fin rat

datatype jsval =
    JUndefined
  | JNull
  | JBool bool
  | JNum jsnum
  | JStr string
  | JArr nat "jsval list"
  | JObj nat "(string \<times> jsval) list"

text \<open>The only exception the engine can meet on such data: calling a property that is
  not a function, reading a property of \<^verbatim>\<open>null\<close> or \<^verbatim>\<open>undefined\<close>, or converting to a
  primitive an object that has no callable \<^verbatim>\<open>toString\<close>.\<close>

datatype error = TypeError

text \<open>
  What the JavaScript host supplies and the repository does not define: the local time
  zone adjustment of ECMAScript (\<open>LocalTZA t isUTC\<close>, in milliseconds), the parsing of
  date strings other than the two ISO forms modelled below, the string that the inherited
  \<^verbatim>\<open>toString\<close> gives for an array or object, and the conversion of a string to a number.
  They are parameters of the model; every theorem holds for whatever the host does
  there.
\<close>

record host =
  LocalTZA :: "int \<Rightarrow> bool \<Rightarrow> int"
  parseOther :: "string \<Rightarrow> int option"
  objectToString :: "jsval \<Rightarrow> string"
  StringToNumber :: "string \<Rightarrow> jsnum"

subsection \<open>Truthiness, \<^verbatim>\<open>typeof\<close>, equality\<close>

fun isNullish :: "jsval \<Rightarrow> bool" where
  "isNullish JUndefined = True"
| "isNullish JNull = True"
| "isNullish _ = False"

text \<open>\<^verbatim>\<open>!v\<close> holds for \<^verbatim>\<open>undefined\<close>, \<^verbatim>\<open>null\<close>, \<^verbatim>\<open>false\<close>, \<^verbatim>\<open>NaN\<close>, zero and the
  empty string; \<open>truthy\<close> is its negation.\<close>

fun truthy :: "jsval \<Rightarrow> bool" where
  "truthy JUndefined = False"
| "truthy JNull = False"
| "truthy (JBool b) = b"
| "truthy (JNum NaN) = False"
| "truthy (JNum (Fin q)) = (q \<noteq> 0)"
| "truthy (JNum _) = True"
| "truthy (JStr s) = (s \<noteq> [])"
| "truthy (JArr _ _) = True"
| "truthy (JObj _ _) = True"

fun typeof :: "jsval \<Rightarrow> string" where
  "typeof JUndefined = ''undefined''"
| "typeof JNull = ''object''"
| "typeof (JBool _) = ''boolean''"
| "typeof (JNum _) = ''number''"
| "typeof (JStr _) = ''string''"
| "typeof (JArr _ _) = ''object''"
| "typeof (JObj _ _) = ''object''"

fun isArray :: "jsval \<Rightarrow> bool" where
  "isArray (JArr _ _) = True"
| "isArray _ = False"

fun isNaN :: "jsnum \<Rightarrow> bool" where
  "isNaN NaN = True"
| "isNaN _ = False"

text \<open>Equality of two numbers: \<^verbatim>\<open>NaN\<close> equals nothing, itself included.\<close>

fun num_eq :: "jsnum \<Rightarrow> jsnum \<Rightarrow> bool" where
  "num_eq NaN _ = False"
| "num_eq _ NaN = False"
| "num_eq a b = (a = b)"

text \<open>\<^verbatim>\<open>a === b\<close>: no conversion; arrays and objects are equal when they are the same
  reference.\<close>

fun strict_eq :: "jsval \<Rightarrow> jsval \<Rightarrow> bool" where
  "strict_eq JUndefined JUndefined = True"
| "strict_eq JNull JNull = True"
| "strict_eq (JBool a) (JBool b) = (a = b)"
| "strict_eq (JNum a) (JNum b) = num_eq a b"
| "strict_eq (JStr a) (JStr b) = (a = b)"
| "strict_eq (JArr r _) (JArr r' _) = (r = r')"
| "strict_eq (JObj r _) (JObj r' _) = (r = r')"
| "strict_eq _ _ = False"

text \<open>\<^verbatim>\<open>SameValueZero\<close>, the comparison of \<^verbatim>\<open>Array.prototype.includes\<close>: strict equality,
  except that \<^verbatim>\<open>NaN\<close> is found.\<close>

fun sameValueZero :: "jsval \<Rightarrow> jsval \<Rightarrow> bool" where
  "sameValueZero (JNum NaN) (JNum NaN) = True"
| "sameValueZero a b = strict_eq a b"

definition array_includes :: "jsval list \<Rightarrow> jsval \<Rightarrow> bool" where
  "array_includes xs v = list_ex (\<lambda>x. sameValueZero x v) xs"

subsection \<open>Property access\<close>

text \<open>
  \<open>getProp v k\<close> is \<^verbatim>\<open>v[k]\<close> for a value \<open>v\<close> that is neither \<^verbatim>\<open>null\<close> nor
  \<^verbatim>\<open>undefined\<close>. Records and condition values are plain data (they come from an object
  literal or from \<^verbatim>\<open>JSON.parse\<close>), so an object has the own properties listed in it; a
  missing property reads as \<^verbatim>\<open>undefined\<close>. The properties that built-in prototypes add
  (\<^verbatim>\<open>length\<close>, array indices, methods) are not part of the model: no key of the field
  schema and none of \<^verbatim>\<open>from\<close>, \<^verbatim>\<open>to\<close>, \<^verbatim>\<open>min\<close>, \<^verbatim>\<open>max\<close> is such a name.
\<close>

fun getProp :: "jsval \<Rightarrow> string \<Rightarrow> jsval" where
  "getProp (JObj _ ps) k = (case map_of ps k of Some v \<Rightarrow> v | None \<Rightarrow> JUndefined)"
| "getProp _ k = JUndefined"

text \<open>\<^verbatim>\<open>k in v\<close>, used by the validator after it has checked that \<open>v\<close> is a non-null
  object.\<close>

fun hasProp :: "string \<Rightarrow> jsval \<Rightarrow> bool" where
  "hasProp k (JObj _ ps) = (map_of ps k \<noteq> None)"
| "hasProp k _ = False"

text \<open>\<^verbatim>\<open>v?.[k]\<close>\<close>

definition optChain :: "jsval \<Rightarrow> string \<Rightarrow> jsval" where
  "optChain v k = (if isNullish v then JUndefined else getProp v k)"

subsection \<open>Conversions and the relational operators\<close>

text \<open>
  \<^verbatim>\<open>ToPrimitive\<close> of an object calls its \<^verbatim>\<open>valueOf\<close> and \<^verbatim>\<open>toString\<close>. On plain data the
  inherited \<^verbatim>\<open>valueOf\<close> returns the object itself, so the result is what \<^verbatim>\<open>toString\<close>
  returns. An own property \<^verbatim>\<open>toString\<close> of a data object (as in \<^verbatim>\<open>{"toString": 1}\<close>)
  is not callable and hides the inherited method: the conversion throws a TypeError.
  The \<^verbatim>\<open>toString\<close> of an array joins the strings of its elements (\<^verbatim>\<open>null\<close> and
  \<^verbatim>\<open>undefined\<close> give the empty string), so it throws when the conversion of an element
  does.
\<close>

fun toPrimitiveThrows :: "jsval \<Rightarrow> bool" where
  "toPrimitiveThrows (JObj r ps) = (map_of ps ''toString'' \<noteq> None)"
| "toPrimitiveThrows (JArr r xs) = list_ex toPrimitiveThrows xs"
| "toPrimitiveThrows v = False"

definition ToPrimitive :: "host \<Rightarrow> jsval \<Rightarrow> error + jsval" where
  "ToPrimitive h v =
     (if toPrimitiveThrows v then Inl TypeError
      else Inr (case v of
                  JArr r xs \<Rightarrow> JStr (objectToString h v)
                | JObj r ps \<Rightarrow> JStr (objectToString h v)
                | _ \<Rightarrow> v))"

text \<open>\<^verbatim>\<open>ToNumber\<close>, applied to the primitive that \<^verbatim>\<open>ToPrimitive\<close> returned.\<close>

fun ToNumber :: "host \<Rightarrow> jsval \<Rightarrow> jsnum" where
  "ToNumber h JUndefined = NaN"
| "ToNumber h JNull = Fin 0"
| "ToNumber h (JBool b) = Fin (if b then 1 else 0)"
| "ToNumber h (JNum n) = n"
| "ToNumber h (JStr s) = StringToNumber h s"
| "ToNumber h v = StringToNumber h (objectToString h v)"

text \<open>\<open>num_lt a b\<close> is the result of comparing two numbers: \<open>None\<close> when one is
  \<^verbatim>\<open>NaN\<close> (the comparison is undefined), else whether \<open>a < b\<close>.\<close>

fun num_lt :: "jsnum \<Rightarrow> jsnum \<Rightarrow> bool option" where
  "num_lt NaN _ = None"
| "num_lt _ NaN = None"
| "num_lt PosInf _ = Some False"
| "num_lt _ NegInf = Some False"
| "num_lt NegInf _ = Some True"
| "num_lt _ PosInf = Some True"
| "num_lt (Fin a) (Fin b) = Some (a < b)"

text \<open>Strings compare by code units, lexicographically.\<close>

fun str_lt :: "string \<Rightarrow> string \<Rightarrow> bool" where
  "str_lt [] [] = False"
| "str_lt [] (y # ys) = True"
| "str_lt (x # xs) [] = False"
| "str_lt (x # xs) (y # ys) =
     (if x = y then str_lt xs ys else (of_char x :: nat) < of_char y)"

text \<open>\<^verbatim>\<open>IsLessThan\<close> on two primitives: two strings compare as strings, anything else as
  numbers; \<open>None\<close> is the undefined result of a comparison with \<^verbatim>\<open>NaN\<close>.\<close>

definition IsLessThan :: "host \<Rightarrow> jsval \<Rightarrow> jsval \<Rightarrow> bool option" where
  "IsLessThan h px py =
     (case (px, py) of
        (JStr a, JStr b) \<Rightarrow> Some (str_lt a b)
      | _ \<Rightarrow> num_lt (ToNumber h px) (ToNumber h py))"

text \<open>A relational operator converts its left operand, then its right operand, to a
  primitive (either conversion may throw) and then compares.\<close>

definition relational ::
  "host \<Rightarrow> (jsval \<Rightarrow> jsval \<Rightarrow> bool) \<Rightarrow> jsval \<Rightarrow> jsval \<Rightarrow> error + bool" where
  "relational h f x y =
     (case ToPrimitive h x of
        Inl e \<Rightarrow> Inl e
      | Inr px \<Rightarrow> (case ToPrimitive h y of Inl e \<Rightarrow> Inl e | Inr py \<Rightarrow> Inr (f px py)))"

definition js_lt :: "host \<Rightarrow> jsval \<Rightarrow> jsval \<Rightarrow> error + bool" where
  "js_lt h x y = relational h (\<lambda>px py. IsLessThan h px py = Some True) x y"

definition js_gt :: "host \<Rightarrow> jsval \<Rightarrow> jsval \<Rightarrow> error + bool" where
  "js_gt h x y = relational h (\<lambda>px py. IsLessThan h py px = Some True) x y"

definition js_le :: "host \<Rightarrow> jsval \<Rightarrow> jsval \<Rightarrow> error + bool" where
  "js_le h x y = relational h (\<lambda>px py. IsLessThan h py px = Some False) x y"

definition js_ge :: "host \<Rightarrow> jsval \<Rightarrow> jsval \<Rightarrow> error + bool" where
  "js_ge h x y = relational h (\<lambda>px py. IsLessThan h px py = Some False) x y"

subsection \<open>Strings\<close>

text \<open>\<^verbatim>\<open>toLowerCase\<close> on the ASCII letters, the characters a \<open>string\<close> of the model
  holds.\<close>

definition lowerChar :: "char \<Rightarrow> char" where
  "lowerChar c =
     (let n = (of_char c :: nat) in if 65 \<le> n \<and> n \<le> 90 then char_of (n + 32) else c)"

definition toLowerCase :: "string \<Rightarrow> string" where
  "toLowerCase s = map lowerChar s"

fun str_includes :: "string \<Rightarrow> string \<Rightarrow> bool" where
  "str_includes [] sub = (sub = [])"
| "str_includes (c # cs) sub = (prefix sub (c # cs) \<or> str_includes cs sub)"

definition startsWith :: "string \<Rightarrow> string \<Rightarrow> bool" where
  "startsWith s p = prefix p s"

definition endsWith :: "string \<Rightarrow> string \<Rightarrow> bool" where
  "endsWith s p = suffix p s"

text \<open>\<^verbatim>\<open>trim\<close> removes white space and line terminators at both ends.\<close>

definition isWhiteSpace :: "char \<Rightarrow> bool" where
  "isWhiteSpace c = ((of_char c :: nat) \<in> {9, 10, 11, 12, 13, 32})"

definition trim :: "string \<Rightarrow> string" where
  "trim s = rev (dropWhile isWhiteSpace (rev (dropWhile isWhiteSpace s)))"

text \<open>\<^verbatim>\<open>s.split('.')\<close>: the segments between the dots, at least one.\<close>

fun split_dot :: "string \<Rightarrow> string list" where
  "split_dot [] = [[]]"
| "split_dot (c # cs) =
     (if c = CHR ''.'' then [] # split_dot cs
      else (case split_dot cs of w # ws \<Rightarrow> (c # w) # ws | [] \<Rightarrow> [[c]]))"

section \<open>Dates\<close>

text \<open>
  A \<^verbatim>\<open>Date\<close> object holds a time value: milliseconds since the epoch, or \<^verbatim>\<open>NaN\<close> for
  an invalid date (\<open>None\<close>). The functions below follow the abstract operations of
  ECMAScript.
\<close>

type_synonym jsdate = "int option"

definition msPerDay :: int where
  "msPerDay = 86400000"

definition TimeClip :: "int \<Rightarrow> jsdate" where
  "TimeClip t = (if \<bar>t\<bar> > 8640000000000000 then None else Some t)"

definition Day :: "int \<Rightarrow> int" where
  "Day t = t div msPerDay"

definition MakeTime :: "int \<Rightarrow> int \<Rightarrow> int \<Rightarrow> int \<Rightarrow> int" where
  "MakeTime hh mm ss ms = hh * 3600000 + mm * 60000 + ss * 1000 + ms"

definition MakeDate :: "int \<Rightarrow> int \<Rightarrow> int" where
  "MakeDate day time = day * msPerDay + time"

definition LocalTime :: "host \<Rightarrow> int \<Rightarrow> int" where
  "LocalTime h t = t + LocalTZA h t True"

definition UTC :: "host \<Rightarrow> int \<Rightarrow> int" where
  "UTC h t = t - LocalTZA h t False"

text \<open>\<^verbatim>\<open>d.setHours(hh, mm, ss, ms)\<close>: the same local day, the given local time. An invalid
  date stays invalid.\<close>

definition setHours :: "host \<Rightarrow> jsdate \<Rightarrow> int \<Rightarrow> int \<Rightarrow> int \<Rightarrow> int \<Rightarrow> jsdate" where
  "setHours h d hh mm ss ms =
     (case d of
        None \<Rightarrow> None
      | Some t \<Rightarrow> TimeClip (UTC h (MakeDate (Day (LocalTime h t)) (MakeTime hh mm ss ms))))"

subsection \<open>Parsing\<close>

text \<open>
  \<^verbatim>\<open>Date.parse\<close> reads the date-only form \<^verbatim>\<open>YYYY-MM-DD\<close> of the ECMAScript date-time
  string format as midnight UTC of that day, and the date-time form
  \<^verbatim>\<open>YYYY-MM-DDTHH:mm:ss\<close>, which has no offset, as a local time. Every other string
  (another form of the format, or a format only the implementation knows) is left to the
  host.
\<close>

definition digitVal :: "char \<Rightarrow> int option" where
  "digitVal c =
     (let n = (of_char c :: nat) in if 48 \<le> n \<and> n \<le> 57 then Some (int n - 48) else None)"

fun digitsVal :: "int \<Rightarrow> string \<Rightarrow> int option" where
  "digitsVal acc [] = Some acc"
| "digitsVal acc (c # cs) =
     (case digitVal c of None \<Rightarrow> None | Some d \<Rightarrow> digitsVal (acc * 10 + d) cs)"

definition isLeapYear :: "int \<Rightarrow> bool" where
  "isLeapYear y = (y mod 4 = 0 \<and> (y mod 100 \<noteq> 0 \<or> y mod 400 = 0))"

definition daysInMonth :: "int \<Rightarrow> int \<Rightarrow> int" where
  "daysInMonth y m =
     (if m = 2 then (if isLeapYear y then 29 else 28)
      else if m = 4 \<or> m = 6 \<or> m = 9 \<or> m = 11 then 30 else 31)"

text \<open>The number of the day \<open>y-m-d\<close> of the proleptic Gregorian calendar, counted from
  1970-01-01.\<close>

definition daysFromCivil :: "int \<Rightarrow> int \<Rightarrow> int \<Rightarrow> int" where
  "daysFromCivil y m d =
     (let y' = (if m \<le> 2 then y - 1 else y);
          era = y' div 400;
          yoe = y' - era * 400;
          doy = (153 * (if m > 2 then m - 3 else m + 9) + 2) div 5 + d - 1;
          doe = yoe * 365 + yoe div 4 - yoe div 100 + doy
      in era * 146097 + doe - 719468)"

definition parseDateOnly :: "string \<Rightarrow> int option" where
  "parseDateOnly s =
     (case s of
        [y1, y2, y3, y4, s1, m1, m2, s2, d1, d2] \<Rightarrow>
          (if s1 = CHR ''-'' \<and> s2 = CHR ''-'' then
             (case (digitsVal 0 [y1, y2, y3, y4], digitsVal 0 [m1, m2], digitsVal 0 [d1, d2]) of
                (Some y, Some m, Some d) \<Rightarrow>
                  (if 1 \<le> m \<and> m \<le> 12 \<and> 1 \<le> d \<and> d \<le> daysInMonth y m
                   then Some (daysFromCivil y m d * msPerDay) else None)
              | _ \<Rightarrow> None)
           else None)
      | _ \<Rightarrow> None)"

definition parseTime :: "string \<Rightarrow> int option" where
  "parseTime s =
     (case s of
        [t, h1, h2, c1, n1, n2, c2, s1, s2] \<Rightarrow>
          (if t = CHR ''T'' \<and> c1 = CHR '':'' \<and> c2 = CHR '':'' then
             (case (digitsVal 0 [h1, h2], digitsVal 0 [n1, n2], digitsVal 0 [s1, s2]) of
                (Some hh, Some mm, Some ss) \<Rightarrow>
                  (if hh \<le> 23 \<and> mm \<le> 59 \<and> ss \<le> 59 then Some (MakeTime hh mm ss 0) else None)
              | _ \<Rightarrow> None)
           else None)
      | _ \<Rightarrow> None)"

definition parseLocalDateTime :: "host \<Rightarrow> string \<Rightarrow> int option" where
  "parseLocalDateTime h s =
     (case (parseDateOnly (take 10 s), parseTime (drop 10 s)) of
        (Some day, Some time) \<Rightarrow> Some (UTC h (day + time))
      | _ \<Rightarrow> None)"

definition Date_parse :: "host \<Rightarrow> string \<Rightarrow> jsdate" where
  "Date_parse h s =
     (case parseDateOnly s of
        Some t \<Rightarrow> Some t
      | None \<Rightarrow>
         (case parseLocalDateTime h s of
            Some t \<Rightarrow> TimeClip t
          | None \<Rightarrow> (case parseOther h s of None \<Rightarrow> None | Some t \<Rightarrow> TimeClip t)))"

text \<open>\<^verbatim>\<open>TimeClip\<close> of a number, for \<^verbatim>\<open>new Date(number)\<close>: out of range or not finite
  gives an invalid date, else the number is truncated towards zero.\<close>

fun numToDate :: "jsnum \<Rightarrow> jsdate" where
  "numToDate (Fin q) =
     (if \<bar>q\<bar> > 8640000000000000 then None
      else Some (if q < 0 then - \<lfloor>- q\<rfloor> else \<lfloor>q\<rfloor>))"
| "numToDate _ = None"

text \<open>\<^verbatim>\<open>new Date(v)\<close> with one argument: the argument is converted to a primitive,
  which may throw; a string is parsed, anything else is converted to a number of
  milliseconds.\<close>

definition new_Date :: "host \<Rightarrow> jsval \<Rightarrow> error + jsdate" where
  "new_Date h v =
     (case ToPrimitive h v of
        Inl e \<Rightarrow> Inl e
      | Inr (JStr s) \<Rightarrow> Inr (Date_parse h s)
      | Inr p \<Rightarrow> Inr (numToDate (ToNumber h p)))"

text \<open>\<^verbatim>\<open>a >= b\<close> and \<^verbatim>\<open>a <= b\<close> on two dates compare their time values; with an invalid
  date both are false.\<close>

fun date_ge :: "jsdate \<Rightarrow> jsdate \<Rightarrow> bool" where
  "date_ge (Some a) (Some b) = (a \<ge> b)"
| "date_ge _ _ = False"

fun date_le :: "jsdate \<Rightarrow> jsdate \<Rightarrow> bool" where
  "date_le (Some a) (Some b) = (a \<le> b)"
| "date_le _ _ = False"

section \<open>The field schema\<close>

text \<open>\<^verbatim>\<open>FieldType\<close>, \<^verbatim>\<open>FieldDefinition\<close> and \<^verbatim>\<open>FilterCondition\<close> of the types module.
  An operator is a string at run time. The fields of a condition are prefixed with
  \<open>cond_\<close> (\<open>id\<close> and \<open>value\<close> are taken in Isabelle).\<close>

datatype FieldType = Text | Number | Date | Amount | SingleSelect | MultiSelect | Boolean

record FieldDefinition =
  key :: string
  label :: string
  type :: FieldType
  operators :: "string list"
  options :: "string list option"
  getValue :: "(jsval \<Rightarrow> jsval) option"

record FilterCondition =
  cond_id :: string
  cond_field :: string
  cond_operator :: string
  cond_value :: jsval

text \<open>The path walk shared by \<^verbatim>\<open>getNestedValue\<close> and \<^verbatim>\<open>getFieldValue\<close>: the loop over
  the segments, with its early return of \<^verbatim>\<open>null\<close>.\<close>

fun walkPath :: "jsval \<Rightarrow> string list \<Rightarrow> jsval" where
  "walkPath v [] = v"
| "walkPath v (k # ks) =
     (let v' = optChain v k in
      if v' = JUndefined \<or> v' = JNull then JNull else walkPath v' ks)"

definition getNestedValue :: "jsval \<Rightarrow> string \<Rightarrow> jsval" where
  "getNestedValue record path = walkPath record (split_dot path)"

definition textOperators :: "string list" where
  "textOperators = [''equals'', ''contains'', ''startsWith'', ''endsWith'', ''doesNotContain'']"

definition numberOperators :: "string list" where
  "numberOperators =
     [''equals'', ''greaterThan'', ''lessThan'', ''greaterThanOrEqual'', ''lessThanOrEqual'']"

definition mkField ::
  "string \<Rightarrow> string \<Rightarrow> FieldType \<Rightarrow> string list \<Rightarrow> string list option \<Rightarrow>
   (jsval \<Rightarrow> jsval) option \<Rightarrow> string \<times> FieldDefinition" where
  "mkField k l t ops opts g =
     (k, \<lparr>key = k, label = l, type = t, operators = ops, options = opts, getValue = g\<rparr>)"

definition fieldDefinitions :: "(string \<times> FieldDefinition) list" where
  "fieldDefinitions =
    [mkField ''name'' ''Name'' Text textOperators None None,
     mkField ''email'' ''Email'' Text textOperators None None,
     mkField ''department'' ''Department'' SingleSelect [''is'', ''isNot'']
       (Some [''Engineering'', ''Marketing'', ''Sales'', ''HR'', ''Finance'', ''Operations'',
              ''Product'', ''Design'']) None,
     mkField ''role'' ''Role'' SingleSelect [''is'', ''isNot'']
       (Some [''Senior Developer'', ''Junior Developer'', ''Product Manager'', ''Designer'',
              ''Marketing Manager'', ''Sales Representative'', ''HR Specialist'',
              ''Finance Analyst'', ''Operations Manager'', ''QA Engineer'']) None,
     mkField ''projects'' ''Projects'' Number numberOperators None None,
     mkField ''performanceRating'' ''Performance Rating'' Number numberOperators None None,
     mkField ''salary'' ''Salary'' Amount [''between''] None None,
     mkField ''joinDate'' ''Join Date'' Date [''between''] None None,
     mkField ''lastReview'' ''Last Review'' Date [''between''] None None,
     mkField ''isActive'' ''Active Status'' Boolean [''is''] None None,
     mkField ''skills'' ''Skills'' MultiSelect [''in'', ''notIn'']
       (Some [''React'', ''TypeScript'', ''Node.js'', ''GraphQL'', ''Python'', ''Java'', ''AWS'',
              ''Docker'', ''Kubernetes'', ''MongoDB'', ''PostgreSQL'', ''Redis'', ''Vue.js'',
              ''Angular'', ''Next.js'']) None,
     mkField ''address.city'' ''City'' SingleSelect [''is'', ''isNot'']
       (Some [''San Francisco'', ''New York'', ''Los Angeles'', ''Chicago'', ''Seattle'',
              ''Austin'', ''Boston'', ''Denver''])
       (Some (\<lambda>record. getNestedValue record ''address.city'')),
     mkField ''address.state'' ''State'' SingleSelect [''is'', ''isNot'']
       (Some [''CA'', ''NY'', ''TX'', ''WA'', ''IL'', ''MA'', ''CO'', ''FL''])
       (Some (\<lambda>record. getNestedValue record ''address.state''))]"

text \<open>\<^verbatim>\<open>fieldDefinitions[key]\<close>: the entry of the table, or \<^verbatim>\<open>undefined\<close> (\<open>None\<close>). The
  table is an object literal; the names it inherits from \<^verbatim>\<open>Object.prototype\<close> are not
  field keys and are not part of the model.\<close>

definition getFieldDefinition :: "string \<Rightarrow> FieldDefinition option" where
  "getFieldDefinition k = map_of fieldDefinitions k"

section \<open>The field value accessor\<close>

definition getFieldValue :: "jsval \<Rightarrow> string \<Rightarrow> jsval" where
  "getFieldValue record fieldKey =
     (case (case getFieldDefinition fieldKey of None \<Rightarrow> None | Some fieldDef \<Rightarrow> getValue fieldDef) of
        Some g \<Rightarrow> g record
      | None \<Rightarrow> walkPath record (split_dot fieldKey))"

section \<open>The operator evaluators\<close>

text \<open>\<^verbatim>\<open>v.toLowerCase()\<close>: defined on a string. On \<^verbatim>\<open>null\<close> and \<^verbatim>\<open>undefined\<close> the
  property read throws, on any other value the property is not a function and the call
  throws.\<close>

definition callToLowerCase :: "jsval \<Rightarrow> error + string" where
  "callToLowerCase v = (case v of JStr s \<Rightarrow> Inr (toLowerCase s) | _ \<Rightarrow> Inl TypeError)"

definition applyTextFilter :: "jsval \<Rightarrow> string \<Rightarrow> jsval \<Rightarrow> error + bool" where
  "applyTextFilter recordValue operator filterValue =
     (if \<not> truthy recordValue then Inr False
      else case callToLowerCase recordValue of
        Inl e \<Rightarrow> Inl e
      | Inr recordLower \<Rightarrow>
         (case callToLowerCase filterValue of
            Inl e \<Rightarrow> Inl e
          | Inr filterLower \<Rightarrow>
              Inr (if operator = ''equals'' then recordLower = filterLower
                   else if operator = ''contains'' then str_includes recordLower filterLower
                   else if operator = ''startsWith'' then startsWith recordLower filterLower
                   else if operator = ''endsWith'' then endsWith recordLower filterLower
                   else if operator = ''doesNotContain'' then \<not> str_includes recordLower filterLower
                   else False)))"

text \<open>In the number evaluator \<^verbatim>\<open>===\<close> never throws; the four relational operators
  throw when an operand cannot be converted to a primitive.\<close>

definition applyNumberFilter :: "host \<Rightarrow> jsval \<Rightarrow> string \<Rightarrow> jsval \<Rightarrow> error + bool" where
  "applyNumberFilter h recordValue operator filterValue =
     (if recordValue = JNull \<or> recordValue = JUndefined then Inr False
      else if operator = ''equals'' then Inr (strict_eq recordValue filterValue)
      else if operator = ''greaterThan'' then js_gt h recordValue filterValue
      else if operator = ''lessThan'' then js_lt h recordValue filterValue
      else if operator = ''greaterThanOrEqual'' then js_ge h recordValue filterValue
      else if operator = ''lessThanOrEqual'' then js_le h recordValue filterValue
      else Inr False)"

text \<open>The date evaluator has no operator parameter. Each \<^verbatim>\<open>new Date\<close> may throw, and
  reading \<^verbatim>\<open>filterValue.from\<close> throws when the filter value is \<^verbatim>\<open>null\<close> or
  \<^verbatim>\<open>undefined\<close>.\<close>

definition applyDateFilter :: "host \<Rightarrow> jsval \<Rightarrow> jsval \<Rightarrow> error + bool" where
  "applyDateFilter h recordValue filterValue =
     (if \<not> truthy recordValue then Inr False
      else case new_Date h recordValue of
        Inl e \<Rightarrow> Inl e
      | Inr recordDate \<Rightarrow>
          if isNullish filterValue then Inl TypeError
          else case new_Date h (getProp filterValue ''from'') of
            Inl e \<Rightarrow> Inl e
          | Inr fromDate0 \<Rightarrow>
             (case new_Date h (getProp filterValue ''to'') of
                Inl e \<Rightarrow> Inl e
              | Inr toDate0 \<Rightarrow>
                  let fromDate = setHours h fromDate0 0 0 0 0;
                      toDate = setHours h toDate0 23 59 59 999
                  in Inr (date_ge recordDate fromDate \<and> date_le recordDate toDate)))"

text \<open>In the amount evaluator \<^verbatim>\<open>&&\<close> evaluates its right operand only when the left one
  is true.\<close>

definition applyAmountFilter :: "host \<Rightarrow> jsval \<Rightarrow> jsval \<Rightarrow> error + bool" where
  "applyAmountFilter h recordValue filterValue =
     (if recordValue = JNull \<or> recordValue = JUndefined then Inr False
      else if isNullish filterValue then Inl TypeError
      else case js_ge h recordValue (getProp filterValue ''min'') of
        Inl e \<Rightarrow> Inl e
      | Inr b \<Rightarrow> if b then js_le h recordValue (getProp filterValue ''max'') else Inr False)"

definition applySingleSelectFilter :: "jsval \<Rightarrow> string \<Rightarrow> jsval \<Rightarrow> bool" where
  "applySingleSelectFilter recordValue operator filterValue =
     (if \<not> truthy recordValue then False
      else if operator = ''is'' then strict_eq recordValue filterValue
      else if operator = ''isNot'' then \<not> strict_eq recordValue filterValue
      else False)"

text \<open>\<^verbatim>\<open>v.some(p)\<close>: defined on an array; on any other value the call throws.\<close>

definition callSome :: "jsval \<Rightarrow> (jsval \<Rightarrow> bool) \<Rightarrow> error + bool" where
  "callSome v p = (case v of JArr _ xs \<Rightarrow> Inr (list_ex p xs) | _ \<Rightarrow> Inl TypeError)"

fun elements :: "jsval \<Rightarrow> jsval list" where
  "elements (JArr _ xs) = xs"
| "elements _ = []"

definition applyMultiSelectFilter :: "jsval \<Rightarrow> string \<Rightarrow> jsval \<Rightarrow> error + bool" where
  "applyMultiSelectFilter recordValue operator filterValue =
     (if \<not> truthy recordValue \<or> \<not> isArray recordValue then Inr False
      else if operator = ''in'' then
        callSome filterValue (\<lambda>val. array_includes (elements recordValue) val)
      else if operator = ''notIn'' then
        (case callSome filterValue (\<lambda>val. array_includes (elements recordValue) val) of
           Inl e \<Rightarrow> Inl e
         | Inr b \<Rightarrow> Inr (\<not> b))
      else Inr False)"

text \<open>The boolean evaluator has no operator parameter either.\<close>

definition applyBooleanFilter :: "jsval \<Rightarrow> jsval \<Rightarrow> bool" where
  "applyBooleanFilter recordValue filterValue = strict_eq recordValue filterValue"

section \<open>The filter engine\<close>

definition applyFilterCondition :: "host \<Rightarrow> jsval \<Rightarrow> FilterCondition \<Rightarrow> error + bool" where
  "applyFilterCondition h record condition =
     (let recordValue = getFieldValue record (cond_field condition) in
      case getFieldDefinition (cond_field condition) of
        None \<Rightarrow> Inr False
      | Some fieldDef \<Rightarrow>
          if recordValue = JNull \<or> recordValue = JUndefined then Inr False
          else
            (case type fieldDef of
               Text \<Rightarrow> applyTextFilter recordValue (cond_operator condition) (cond_value condition)
             | Number \<Rightarrow>
                 applyNumberFilter h recordValue (cond_operator condition) (cond_value condition)
             | Date \<Rightarrow> applyDateFilter h recordValue (cond_value condition)
             | Amount \<Rightarrow> applyAmountFilter h recordValue (cond_value condition)
             | SingleSelect \<Rightarrow>
                 Inr (applySingleSelectFilter recordValue (cond_operator condition)
                        (cond_value condition))
             | MultiSelect \<Rightarrow>
                 applyMultiSelectFilter recordValue (cond_operator condition) (cond_value condition)
             | Boolean \<Rightarrow> Inr (applyBooleanFilter recordValue (cond_value condition))))"

text \<open>\<^verbatim>\<open>xs.every(p)\<close> stops at the first element that fails; \<^verbatim>\<open>xs.filter(p)\<close> visits the
  elements in order. An exception of the callback ends either.\<close>

fun every :: "('a \<Rightarrow> error + bool) \<Rightarrow> 'a list \<Rightarrow> error + bool" where
  "every p [] = Inr True"
| "every p (x # xs) =
     (case p x of Inl e \<Rightarrow> Inl e | Inr b \<Rightarrow> if b then every p xs else Inr False)"

fun filter_js :: "('a \<Rightarrow> error + bool) \<Rightarrow> 'a list \<Rightarrow> error + 'a list" where
  "filter_js p [] = Inr []"
| "filter_js p (x # xs) =
     (case p x of
        Inl e \<Rightarrow> Inl e
      | Inr b \<Rightarrow>
         (case filter_js p xs of Inl e \<Rightarrow> Inl e | Inr ys \<Rightarrow> Inr (if b then x # ys else ys)))"

definition filterEmployees :: "host \<Rightarrow> jsval list \<Rightarrow> FilterCondition list \<Rightarrow> error + jsval list" where
  "filterEmployees h employees filters =
     (if length filters = 0 then Inr employees
      else filter_js (\<lambda>record. every (\<lambda>condition. applyFilterCondition h record condition) filters)
             employees)"

section \<open>The condition validator\<close>

text \<open>For an amount the two \<^verbatim>\<open>typeof ... === 'number'\<close> tests and \<^verbatim>\<open>min <= max\<close> are one
  case distinction: on two numbers \<^verbatim>\<open>min <= max\<close> is \<open>num_lt max min = Some False\<close>.\<close>

definition validateFilterCondition :: "FilterCondition \<Rightarrow> bool" where
  "validateFilterCondition condition =
     (let v = cond_value condition in
      case getFieldDefinition (cond_field condition) of
        None \<Rightarrow> False
      | Some fieldDef \<Rightarrow>
          if cond_operator condition \<notin> set (operators fieldDef) then False
          else
            (case type fieldDef of
               Text \<Rightarrow> (case v of JStr s \<Rightarrow> length (trim s) > 0 | _ \<Rightarrow> False)
             | SingleSelect \<Rightarrow> (case v of JStr s \<Rightarrow> length (trim s) > 0 | _ \<Rightarrow> False)
             | Number \<Rightarrow> (case v of JNum n \<Rightarrow> \<not> isNaN n | _ \<Rightarrow> False)
             | Date \<Rightarrow>
                 typeof v = ''object'' \<and> v \<noteq> JNull \<and> hasProp ''from'' v \<and> hasProp ''to'' v \<and>
                 typeof (getProp v ''from'') = ''string'' \<and> typeof (getProp v ''to'') = ''string''
             | Amount \<Rightarrow>
                 typeof v = ''object'' \<and> v \<noteq> JNull \<and> hasProp ''min'' v \<and> hasProp ''max'' v \<and>
                 (case (getProp v ''min'', getProp v ''max'') of
                    (JNum a, JNum b) \<Rightarrow> num_lt b a = Some False
                  | _ \<Rightarrow> False)
             | MultiSelect \<Rightarrow> (case v of JArr _ xs \<Rightarrow> length xs > 0 | _ \<Rightarrow> False)
             | Boolean \<Rightarrow> typeof v = ''boolean''))"

section \<open>Records and sample data\<close>

text \<open>The \<^verbatim>\<open>Employee\<close> interface of the types module, as a predicate on run-time values:
  every declared property is present with its declared type.\<close>

fun isStringArray :: "jsval \<Rightarrow> bool" where
  "isStringArray (JArr _ xs) = list_all (\<lambda>x. typeof x = ''string'') xs"
| "isStringArray _ = False"

fun isObject :: "jsval \<Rightarrow> bool" where
  "isObject (JObj _ _) = True"
| "isObject _ = False"

definition isEmployee :: "jsval \<Rightarrow> bool" where
  "isEmployee r =
     (isObject r \<and>
      typeof (getProp r ''id'') = ''number'' \<and>
      typeof (getProp r ''name'') = ''string'' \<and>
      typeof (getProp r ''email'') = ''string'' \<and>
      typeof (getProp r ''department'') = ''string'' \<and>
      typeof (getProp r ''role'') = ''string'' \<and>
      typeof (getProp r ''salary'') = ''number'' \<and>
      typeof (getProp r ''joinDate'') = ''string'' \<and>
      typeof (getProp r ''isActive'') = ''boolean'' \<and>
      isStringArray (getProp r ''skills'') \<and>
      isObject (getProp r ''address'') \<and>
      typeof (getProp (getProp r ''address'') ''city'') = ''string'' \<and>
      typeof (getProp (getProp r ''address'') ''state'') = ''string'' \<and>
      typeof (getProp (getProp r ''address'') ''country'') = ''string'' \<and>
      typeof (getProp r ''projects'') = ''number'' \<and>
      typeof (getProp r ''lastReview'') = ''string'' \<and>
      typeof (getProp r ''performanceRating'') = ''number'')"

text \<open>A host five hours west of Greenwich with no daylight saving, and three records:
  two employees and an object that has lost its name and its address.\<close>

definition sampleHost :: host where
  "sampleHost =
     \<lparr>LocalTZA = (\<lambda>t isUTC. - 18000000), parseOther = (\<lambda>s. None),
      objectToString = (\<lambda>v. ''[object Object]''), StringToNumber = (\<lambda>s. NaN)\<rparr>"

definition employee1 :: jsval where
  "employee1 =
     JObj 1
      [(''id'', JNum (Fin 1)), (''name'', JStr ''Jane Smith''),
       (''email'', JStr ''jane.smith@company.com''), (''department'', JStr ''Engineering''),
       (''role'', JStr ''Senior Developer''), (''salary'', JNum (Fin 90000)),
       (''joinDate'', JStr ''2024-03-15''), (''isActive'', JBool True),
       (''skills'', JArr 2 [JStr ''React'', JStr ''Go'']),
       (''address'',
          JObj 3 [(''city'', JStr ''Austin''), (''state'', JStr ''TX''), (''country'', JStr ''USA'')]),
       (''projects'', JNum (Fin 3)), (''lastReview'', JStr ''2024-06-01''),
       (''performanceRating'', JNum (Fin (9 / 2)))]"

definition employee2 :: jsval where
  "employee2 =
     JObj 4
      [(''id'', JNum (Fin 2)), (''name'', JStr ''John Brown''),
       (''email'', JStr ''john.brown@startup.io''), (''department'', JStr ''Sales''),
       (''role'', JStr ''Sales Representative''), (''salary'', JNum (Fin 60000)),
       (''joinDate'', JStr ''2021-11-02''), (''isActive'', JBool False),
       (''skills'', JArr 5 [JStr ''Python'', JStr ''AWS'']),
       (''address'',
          JObj 6 [(''city'', JStr ''Denver''), (''state'', JStr ''CO''), (''country'', JStr ''USA'')]),
       (''projects'', JNum (Fin 7)), (''lastReview'', JStr ''2023-12-11''),
       (''performanceRating'', JNum (Fin 3))]"

definition strippedRecord :: jsval where
  "strippedRecord =
     JObj 7 [(''id'', JNum (Fin 3)), (''department'', JStr ''HR''), (''address'', JNull)]"

section \<open>Properties of the filter engine\<close>

subsection \<open>Auxiliary facts\<close>

lemma filter_js_fixed: "filter_js p xs = Inr ys \<Longrightarrow> filter_js p ys = Inr ys"
proof (induction xs arbitrary: ys)
  case Nil
  then show ?case by simp
next
  case (Cons x xs)
  then show ?case
    by (auto split: sum.splits if_splits)
qed

lemma getFieldDefinition_address_city:
  "getFieldDefinition ''address.city'' =
     Some (snd (mkField ''address.city'' ''City'' SingleSelect [''is'', ''isNot'']
       (Some [''San Francisco'', ''New York'', ''Los Angeles'', ''Chicago'', ''Seattle'',
              ''Austin'', ''Boston'', ''Denver''])
       (Some (\<lambda>record. getNestedValue record ''address.city''))))"
  by (simp add: getFieldDefinition_def fieldDefinitions_def mkField_def)

lemma getFieldDefinition_name:
  "getFieldDefinition ''name'' = Some (snd (mkField ''name'' ''Name'' Text textOperators None None))"
  by (simp add: getFieldDefinition_def fieldDefinitions_def mkField_def)

lemma filter_js_cong:
  "(\<And>x. x \<in> set xs \<Longrightarrow> p x = q x) \<Longrightarrow> filter_js p xs = filter_js q xs"
  by (induction xs) (simp_all split: sum.splits)

lemma every_swap:
  "p c1 \<noteq> Inl TypeError \<Longrightarrow> p c2 \<noteq> Inl TypeError \<Longrightarrow> every p [c1, c2] = every p [c2, c1]"
  by (cases "p c1"; cases "p c2") (auto intro: error.exhaust)

lemma returns_iff_not_raises: "(\<exists>b. x = Inr b) = (x \<noteq> Inl TypeError)"
  by (cases x) (auto intro: error.exhaust)

text \<open>When each evaluator raises.\<close>

lemma applyTextFilter_raises_iff:
  "(applyTextFilter rv op fv = Inl TypeError) =
     (truthy rv \<and> (typeof rv \<noteq> ''string'' \<or> typeof fv \<noteq> ''string''))"
  by (cases rv; cases fv; simp add: applyTextFilter_def callToLowerCase_def)

lemma relational_raises_iff:
  "(relational h f x y = Inl TypeError) = (toPrimitiveThrows x \<or> toPrimitiveThrows y)"
  by (simp add: relational_def ToPrimitive_def)

lemma new_Date_raises_iff: "(new_Date h v = Inl TypeError) = toPrimitiveThrows v"
  by (simp add: new_Date_def ToPrimitive_def split: jsval.splits)

lemma applyNumberFilter_raises_iff:
  "(applyNumberFilter h rv op fv = Inl TypeError) =
     (\<not> isNullish rv \<and>
      op \<in> {''greaterThan'', ''lessThan'', ''greaterThanOrEqual'', ''lessThanOrEqual''} \<and>
      (toPrimitiveThrows rv \<or> toPrimitiveThrows fv))"
  by (cases rv;
      simp add: applyNumberFilter_def js_gt_def js_lt_def js_ge_def js_le_def
        relational_raises_iff)

lemma applyDateFilter_raises_iff:
  "(applyDateFilter h rv fv = Inl TypeError) =
     (truthy rv \<and> (toPrimitiveThrows rv \<or> isNullish fv \<or>
        toPrimitiveThrows (getProp fv ''from'') \<or> toPrimitiveThrows (getProp fv ''to'')))"
  using new_Date_raises_iff [of h rv] new_Date_raises_iff [of h "getProp fv ''from''"]
    new_Date_raises_iff [of h "getProp fv ''to''"]
  by (auto simp: applyDateFilter_def Let_def split: sum.splits intro: error.exhaust)

lemma applyAmountFilter_raises_iff:
  "(applyAmountFilter h rv fv = Inl TypeError) =
     (\<not> isNullish rv \<and> (isNullish fv \<or> toPrimitiveThrows rv \<or>
        toPrimitiveThrows (getProp fv ''min'') \<or>
        (js_ge h rv (getProp fv ''min'') = Inr True \<and>
         toPrimitiveThrows (getProp fv ''max''))))"
  using
    relational_raises_iff [of h "\<lambda>px py. IsLessThan h px py = Some False" rv
      "getProp fv ''min''"]
    relational_raises_iff [of h "\<lambda>px py. IsLessThan h py px = Some False" rv
      "getProp fv ''max''"]
  by (cases rv;
      auto simp: applyAmountFilter_def js_ge_def js_le_def split: sum.splits
        intro: error.exhaust)

lemma primitive_converts:
  "typeof v = ''string'' \<or> typeof v = ''number'' \<Longrightarrow> \<not> toPrimitiveThrows v"
  by (cases v) auto

lemma applyMultiSelectFilter_raises_iff:
  "(applyMultiSelectFilter rv op fv = Inl TypeError) =
     (isArray rv \<and> (op = ''in'' \<or> op = ''notIn'') \<and> \<not> isArray fv)"
  by (cases rv; cases fv; simp add: applyMultiSelectFilter_def callSome_def)

text \<open>Facts read off the schema table.\<close>

lemma text_fields:
  "getFieldDefinition k = Some fd \<Longrightarrow> type fd = Text \<Longrightarrow>
     (k = ''name'' \<or> k = ''email'') \<and> getValue fd = None"
  by (auto simp: getFieldDefinition_def fieldDefinitions_def mkField_def split: if_splits)

lemma boolean_fields:
  "getFieldDefinition k = Some fd \<Longrightarrow> type fd = Boolean \<Longrightarrow> operators fd = [''is'']"
  by (auto simp: getFieldDefinition_def fieldDefinitions_def mkField_def split: if_splits)

lemma range_fields:
  "getFieldDefinition k = Some fd \<Longrightarrow> type fd = Date \<or> type fd = Amount \<Longrightarrow>
     operators fd = [''between'']"
  by (auto simp: getFieldDefinition_def fieldDefinitions_def mkField_def split: if_splits)

lemma number_fields:
  "getFieldDefinition k = Some fd \<Longrightarrow> type fd = Number \<Longrightarrow>
     (k = ''projects'' \<or> k = ''performanceRating'') \<and> getValue fd = None"
  by (auto simp: getFieldDefinition_def fieldDefinitions_def mkField_def split: if_splits)

lemma date_fields:
  "getFieldDefinition k = Some fd \<Longrightarrow> type fd = Date \<Longrightarrow>
     (k = ''joinDate'' \<or> k = ''lastReview'') \<and> getValue fd = None"
  by (auto simp: getFieldDefinition_def fieldDefinitions_def mkField_def split: if_splits)

lemma amount_fields:
  "getFieldDefinition k = Some fd \<Longrightarrow> type fd = Amount \<Longrightarrow>
     k = ''salary'' \<and> getValue fd = None"
  by (auto simp: getFieldDefinition_def fieldDefinitions_def mkField_def split: if_splits)

text \<open>On a record of type \<^verbatim>\<open>Employee\<close> a text or date field resolves to a string and a
  number or amount field to a number.\<close>

lemma employee_text_value:
  assumes "isEmployee r" "k = ''name'' \<or> k = ''email''"
  shows "\<exists>s. walkPath r (split_dot k) = JStr s \<or> walkPath r (split_dot k) = JNull"
proof -
  from assms(1) obtain i ps where r: "r = JObj i ps"
    by (cases r) (auto simp: isEmployee_def)
  from assms(1) have "typeof (getProp r ''name'') = ''string''"
    and "typeof (getProp r ''email'') = ''string''"
    by (auto simp: isEmployee_def)
  then obtain s1 s2 where "getProp r ''name'' = JStr s1" "getProp r ''email'' = JStr s2"
    by (cases "getProp r ''name''"; cases "getProp r ''email''"; simp)
  with assms(2) show ?thesis
    by (auto simp: optChain_def r)
qed

lemma employee_date_value:
  assumes "isEmployee r" "k = ''joinDate'' \<or> k = ''lastReview''"
  shows "\<exists>s. walkPath r (split_dot k) = JStr s"
proof -
  from assms(1) obtain i ps where r: "r = JObj i ps"
    by (cases r) (auto simp: isEmployee_def)
  from assms(1) have "typeof (getProp r ''joinDate'') = ''string''"
    and "typeof (getProp r ''lastReview'') = ''string''"
    by (auto simp: isEmployee_def)
  then obtain s1 s2 where "getProp r ''joinDate'' = JStr s1" "getProp r ''lastReview'' = JStr s2"
    by (cases "getProp r ''joinDate''"; cases "getProp r ''lastReview''"; simp)
  with assms(2) show ?thesis
    by (auto simp: optChain_def r)
qed

lemma employee_number_value:
  assumes "isEmployee r" "k = ''projects'' \<or> k = ''performanceRating'' \<or> k = ''salary''"
  shows "\<exists>n. walkPath r (split_dot k) = JNum n"
proof -
  from assms(1) obtain i ps where r: "r = JObj i ps"
    by (cases r) (auto simp: isEmployee_def)
  from assms(1) have "typeof (getProp r ''projects'') = ''number''"
    and "typeof (getProp r ''performanceRating'') = ''number''"
    and "typeof (getProp r ''salary'') = ''number''"
    by (auto simp: isEmployee_def)
  then obtain n1 n2 n3 where "getProp r ''projects'' = JNum n1"
    "getProp r ''performanceRating'' = JNum n2" "getProp r ''salary'' = JNum n3"
    by (cases "getProp r ''projects''"; cases "getProp r ''performanceRating''";
        cases "getProp r ''salary''"; simp)
  with assms(2) show ?thesis
    by (auto simp: optChain_def r)
qed

text \<open>A condition the validator accepts never raises on a record of type
  \<^verbatim>\<open>Employee\<close>.\<close>

lemma valid_never_raises:
  assumes e: "isEmployee r" and v: "validateFilterCondition c"
  shows "\<exists>b. applyFilterCondition h r c = Inr b"
proof -
  from v obtain fd where fd: "getFieldDefinition (cond_field c) = Some fd"
    by (auto simp: validateFilterCondition_def Let_def split: option.splits)
  show ?thesis
  proof (cases "type fd")
    case Text
    from text_fields [OF fd Text]
    have k: "cond_field c = ''name'' \<or> cond_field c = ''email''" and g: "getValue fd = None"
      by auto
    from v fd Text obtain s where s: "cond_value c = JStr s"
      by (auto simp: validateFilterCondition_def Let_def split: jsval.splits if_splits)
    from employee_text_value [OF e k] obtain t where
      "walkPath r (split_dot (cond_field c)) = JStr t \<or>
       walkPath r (split_dot (cond_field c)) = JNull"
      by blast
    then show ?thesis using fd Text g s
      by (auto simp: applyFilterCondition_def getFieldValue_def Let_def
          returns_iff_not_raises applyTextFilter_raises_iff)
  next
    case Number
    from number_fields [OF fd Number]
    have k: "cond_field c = ''projects'' \<or> cond_field c = ''performanceRating'' \<or>
             cond_field c = ''salary''" and g: "getValue fd = None"
      by auto
    from v fd Number obtain n where n: "cond_value c = JNum n"
      by (auto simp: validateFilterCondition_def Let_def split: jsval.splits if_splits)
    from employee_number_value [OF e k] obtain m where
      "walkPath r (split_dot (cond_field c)) = JNum m"
      by blast
    then show ?thesis using fd Number g n
      by (simp add: applyFilterCondition_def getFieldValue_def Let_def
          returns_iff_not_raises applyNumberFilter_raises_iff)
  next
    case Date
    from date_fields [OF fd Date]
    have k: "cond_field c = ''joinDate'' \<or> cond_field c = ''lastReview''"
      and g: "getValue fd = None"
      by auto
    from v fd Date have nn: "\<not> isNullish (cond_value c)"
      and "typeof (getProp (cond_value c) ''from'') = ''string''"
      and "typeof (getProp (cond_value c) ''to'') = ''string''"
      by (cases "cond_value c"; auto simp: validateFilterCondition_def Let_def split: if_splits)+
    then have p: "\<not> toPrimitiveThrows (getProp (cond_value c) ''from'')"
      "\<not> toPrimitiveThrows (getProp (cond_value c) ''to'')"
      by (auto dest: primitive_converts [OF disjI1])
    from employee_date_value [OF e k] obtain s where
      "walkPath r (split_dot (cond_field c)) = JStr s"
      by blast
    then show ?thesis using fd Date g nn p
      by (simp add: applyFilterCondition_def getFieldValue_def Let_def
          returns_iff_not_raises applyDateFilter_raises_iff)
  next
    case Amount
    from amount_fields [OF fd Amount]
    have k: "cond_field c = ''projects'' \<or> cond_field c = ''performanceRating'' \<or>
             cond_field c = ''salary''" and g: "getValue fd = None"
      by auto
    from v fd Amount have nn: "\<not> isNullish (cond_value c)"
      and "typeof (getProp (cond_value c) ''min'') = ''number''"
      and "typeof (getProp (cond_value c) ''max'') = ''number''"
      by (cases "cond_value c";
          auto simp: validateFilterCondition_def Let_def split: if_splits jsval.splits)+
    then have p: "\<not> toPrimitiveThrows (getProp (cond_value c) ''min'')"
      "\<not> toPrimitiveThrows (getProp (cond_value c) ''max'')"
      by (auto dest: primitive_converts [OF disjI2])
    from employee_number_value [OF e k] obtain m where
      "walkPath r (split_dot (cond_field c)) = JNum m"
      by blast
    then show ?thesis using fd Amount g nn p
      by (simp add: applyFilterCondition_def getFieldValue_def Let_def
          returns_iff_not_raises applyAmountFilter_raises_iff)
  next
    case SingleSelect
    then show ?thesis using fd by (auto simp: applyFilterCondition_def Let_def)
  next
    case MultiSelect
    with v fd have "isArray (cond_value c)"
      by (cases "cond_value c") (auto simp: validateFilterCondition_def Let_def split: if_splits)
    then show ?thesis using fd MultiSelect
      by (simp add: applyFilterCondition_def Let_def returns_iff_not_raises
          applyMultiSelectFilter_raises_iff)
  next
    case Boolean
    then show ?thesis using fd by (auto simp: applyFilterCondition_def Let_def)
  qed
qed

text \<open>A condition on a single-select or boolean field never raises: these evaluators
  only test truthiness and strict equality.\<close>

lemma select_boolean_never_raise:
  "getFieldDefinition (cond_field c) = Some fd \<Longrightarrow>
   type fd = SingleSelect \<or> type fd = Boolean \<Longrightarrow>
   \<exists>b. applyFilterCondition h r c = Inr b"
  by (auto simp: applyFilterCondition_def Let_def)

lemma isEmployee_employee1: "isEmployee employee1"
  by code_simp

lemma isEmployee_employee2: "isEmployee employee2"
  by code_simp

lemma getFieldDefinition_isActive:
  "\<exists>fd. getFieldDefinition ''isActive'' = Some fd \<and> type fd = Boolean"
  by (simp add: getFieldDefinition_def fieldDefinitions_def mkField_def)

lemma getFieldDefinition_projects:
  "\<exists>fd. getFieldDefinition ''projects'' = Some fd \<and> type fd = Number \<and>
     operators fd = numberOperators"
  by (simp add: getFieldDefinition_def fieldDefinitions_def mkField_def)

text \<open>An operator outside the evaluator's own set.\<close>

lemma applyTextFilter_unknown_operator:
  "op \<notin> set textOperators \<Longrightarrow>
     applyTextFilter rv op fv = Inr False \<or> applyTextFilter rv op fv = Inl TypeError"
  by (auto simp: applyTextFilter_def textOperators_def split: sum.splits intro: error.exhaust)

lemma operator_ignored:
  "getFieldDefinition (cond_field c) = Some fd \<Longrightarrow>
   type fd = Date \<or> type fd = Amount \<or> type fd = Boolean \<Longrightarrow>
   applyFilterCondition h r (c\<lparr>cond_operator := op\<rparr>) = applyFilterCondition h r c"
  by (auto simp: applyFilterCondition_def Let_def)

lemma valid_operator:
  "validateFilterCondition c \<Longrightarrow> getFieldDefinition (cond_field c) = Some fd \<Longrightarrow>
   cond_operator c \<in> set (operators fd) \<and>
   (type fd = Boolean \<longrightarrow> cond_operator c = ''is'') \<and>
   (type fd = Date \<or> type fd = Amount \<longrightarrow> cond_operator c = ''between'')"
  using boolean_fields [of "cond_field c" fd] range_fields [of "cond_field c" fd]
  by (auto simp: validateFilterCondition_def Let_def split: if_splits)

text \<open>Date arithmetic in a zone whose offset from UTC is the constant \<open>z\<close>: the bounds
  are moved to the first and the last millisecond of the local day of the instant they
  denote, and a record matches when the local day of its instant lies between the two.
  When the record value and both bounds are date-only strings, that is the comparison
  of the dates as written.\<close>

lemma parse_2024_03_15: "parseDateOnly ''2024-03-15'' = Some 1710460800000"
  by (simp add: parseDateOnly_def digitVal_def daysInMonth_def daysFromCivil_def msPerDay_def
      isLeapYear_def Let_def)

lemma setHours_fixed:
  assumes "\<forall>t u. LocalTZA h t u = z"
  shows "setHours h (Some t) hh mm ss ms
           = TimeClip (Day (t + z) * msPerDay + MakeTime hh mm ss ms - z)"
  using assms by (simp add: setHours_def LocalTime_def UTC_def MakeDate_def)

lemma day_lower: "(Day a * msPerDay - z \<le> r) = (Day a \<le> Day (r + z))"
  by (simp add: Day_def msPerDay_def) linarith

lemma day_upper: "(r \<le> Day a * msPerDay + (msPerDay - 1) - z) = (Day (r + z) \<le> Day a)"
  by (simp add: Day_def msPerDay_def) linarith

lemma start_in_range:
  "\<bar>f\<bar> + msPerDay \<le> 8640000000000000 \<Longrightarrow>
     TimeClip (Day (f + z) * msPerDay - z) = Some (Day (f + z) * msPerDay - z)"
  by (simp add: TimeClip_def Day_def msPerDay_def)

lemma end_in_range:
  "\<bar>t\<bar> + msPerDay \<le> 8640000000000000 \<Longrightarrow>
     TimeClip (Day (t + z) * msPerDay + (msPerDay - 1) - z)
       = Some (Day (t + z) * msPerDay + (msPerDay - 1) - z)"
  by (simp add: TimeClip_def Day_def msPerDay_def)

lemma applyDateFilter_fixed:
  assumes fixed: "\<forall>t u. LocalTZA h t u = z"
    and rv: "truthy rv" and fv: "\<not> isNullish fv"
    and r: "new_Date h rv = Inr (Some r)"
    and f: "new_Date h (getProp fv ''from'') = Inr (Some f)"
    and t: "new_Date h (getProp fv ''to'') = Inr (Some t)"
    and fb: "\<bar>f\<bar> + msPerDay \<le> 8640000000000000"
    and tb: "\<bar>t\<bar> + msPerDay \<le> 8640000000000000"
  shows "setHours h (Some f) 0 0 0 0 = Some (Day (f + z) * msPerDay - z)"
    and "setHours h (Some t) 23 59 59 999 = Some (Day (t + z) * msPerDay + (msPerDay - 1) - z)"
    and "applyDateFilter h rv fv
           = Inr (Day (f + z) \<le> Day (r + z) \<and> Day (r + z) \<le> Day (t + z))"
proof -
  show s: "setHours h (Some f) 0 0 0 0 = Some (Day (f + z) * msPerDay - z)"
    using start_in_range [OF fb, of z] by (simp add: setHours_fixed [OF fixed] MakeTime_def)
  have "MakeTime 23 59 59 999 = msPerDay - 1"
    by (simp add: MakeTime_def msPerDay_def)
  then show e: "setHours h (Some t) 23 59 59 999
                  = Some (Day (t + z) * msPerDay + (msPerDay - 1) - z)"
    using end_in_range [OF tb, of z] by (simp add: setHours_fixed [OF fixed])
  show "applyDateFilter h rv fv
          = Inr (Day (f + z) \<le> Day (r + z) \<and> Day (r + z) \<le> Day (t + z))"
    using rv fv by (simp add: applyDateFilter_def Let_def r f t s e day_lower day_upper)
qed

lemma new_Date_2024_03_15: "new_Date h (JStr ''2024-03-15'') = Inr (Some 1710460800000)"
  by (simp add: new_Date_def ToPrimitive_def Date_parse_def parse_2024_03_15)

lemma applyDateFilter_same_day:
  assumes fixed: "\<forall>t u. LocalTZA h t u = z"
  shows "applyDateFilter h (JStr ''2024-03-15'')
           (JObj k [(''from'', JStr ''2024-03-15''), (''to'', JStr ''2024-03-15'')]) = Inr True"
proof -
  have "applyDateFilter h (JStr ''2024-03-15'')
           (JObj k [(''from'', JStr ''2024-03-15''), (''to'', JStr ''2024-03-15'')])
        = Inr (Day (1710460800000 + z) \<le> Day (1710460800000 + z) \<and>
               Day (1710460800000 + z) \<le> Day (1710460800000 + z))"
    by (rule applyDateFilter_fixed(3) [OF fixed]) (simp_all add: new_Date_2024_03_15 msPerDay_def)
  then show ?thesis by simp
qed

lemma digitVal_range: "digitVal c = Some d \<Longrightarrow> 0 \<le> d \<and> d \<le> 9"
  by (auto simp: digitVal_def Let_def split: if_splits)

lemma digits4_range:
  assumes "digitsVal 0 [a, b, c, d] = Some y"
  shows "0 \<le> y \<and> y \<le> 9999"
proof -
  from assms obtain da db dc dd where
    d: "digitVal a = Some da" "digitVal b = Some db" "digitVal c = Some dc" "digitVal d = Some dd"
    and y: "y = ((da * 10 + db) * 10 + dc) * 10 + dd"
    by (auto split: option.splits)
  from d(1) [THEN digitVal_range] d(2) [THEN digitVal_range] d(3) [THEN digitVal_range]
    d(4) [THEN digitVal_range] y
  show ?thesis by auto
qed

lemma daysFromCivil_range:
  assumes "0 \<le> y" "y \<le> 9999" "1 \<le> m" "m \<le> 12" "1 \<le> d" "d \<le> 31"
  shows "\<bar>daysFromCivil y m d\<bar> \<le> 10000000"
proof -
  define y' where "y' = (if m \<le> 2 then y - 1 else y)"
  define era where "era = y' div 400"
  define yoe where "yoe = y' - era * 400"
  define mp where "mp = (if m > 2 then m - 3 else m + 9)"
  define q where "q = (153 * mp + 2) div 5"
  define a where "a = yoe div 4"
  define b where "b = yoe div 100"
  have 1: "- 1 \<le> y'" "y' \<le> 9999"
    using assms by (auto simp: y'_def)
  have 2: "- 1 \<le> era" "era \<le> 24"
    using zdiv_mono1 [of "- 1" y' 400] zdiv_mono1 [of y' 9999 400] 1 by (simp_all add: era_def)
  have yoe: "yoe = y' mod 400"
    by (simp add: yoe_def era_def minus_div_mult_eq_mod)
  have 3: "0 \<le> yoe" "yoe \<le> 399"
    using pos_mod_bound [of 400 y'] by (simp_all add: yoe)
  have 4: "0 \<le> mp" "mp \<le> 11"
    using assms by (auto simp: mp_def)
  have 5: "0 \<le> q" "q \<le> 337"
    using zdiv_mono1 [of 0 "153 * mp + 2" 5] zdiv_mono1 [of "153 * mp + 2" 1685 5] 4
    by (simp_all add: q_def)
  have 6: "0 \<le> a" "a \<le> 99" "0 \<le> b" "b \<le> 3"
    using zdiv_mono1 [of 0 yoe 4] zdiv_mono1 [of yoe 399 4]
      zdiv_mono1 [of 0 yoe 100] zdiv_mono1 [of yoe 399 100] 3
    by (simp_all add: a_def b_def)
  have "daysFromCivil y m d = era * 146097 + (yoe * 365 + a - b + (q + d - 1)) - 719468"
    by (simp add: daysFromCivil_def Let_def y'_def era_def yoe_def mp_def q_def a_def b_def)
  with 2 3 5 6 assms show ?thesis by linarith
qed

lemma daysInMonth_le: "daysInMonth y m \<le> 31"
  by (simp add: daysInMonth_def)

text \<open>A date-only string denotes midnight UTC of a day between the years 0 and 9999.\<close>

lemma parseDateOnly_day:
  assumes "parseDateOnly s = Some x"
  shows "\<exists>d. x = d * msPerDay \<and> \<bar>d\<bar> \<le> 10000000 \<and> s \<noteq> []"
proof -
  from assms obtain y1 y2 y3 y4 s1 m1 m2 s2 d1 d2
    where s: "s = [y1, y2, y3, y4, s1, m1, m2, s2, d1, d2]"
    by (auto simp: parseDateOnly_def split: list.splits)
  from assms s obtain y m d where y: "digitsVal 0 [y1, y2, y3, y4] = Some y"
    and md: "1 \<le> m" "m \<le> 12" "1 \<le> d" "d \<le> daysInMonth y m"
    and x: "x = daysFromCivil y m d * msPerDay"
    by (auto simp: parseDateOnly_def split: if_splits option.splits)
  from md daysInMonth_le [of y m] have "d \<le> 31" by linarith
  with digits4_range [OF y] md have "\<bar>daysFromCivil y m d\<bar> \<le> 10000000"
    by (intro daysFromCivil_range) auto
  with x s show ?thesis by auto
qed

lemma Day_of_day: "Day (d * msPerDay + z) = d + z div msPerDay"
  by (simp add: Day_def msPerDay_def)

lemma applyDateFilter_date_only:
  assumes fixed: "\<forall>t u. LocalTZA h t u = z"
    and r: "parseDateOnly a = Some r"
    and b: "getProp fv ''from'' = JStr b" and f: "parseDateOnly b = Some f"
    and c: "getProp fv ''to'' = JStr c" and t: "parseDateOnly c = Some t"
  shows "applyDateFilter h (JStr a) fv = Inr (f \<le> r \<and> r \<le> t)"
proof -
  from parseDateOnly_day [OF r] obtain dr where dr: "r = dr * msPerDay" and a: "a \<noteq> []"
    by blast
  from parseDateOnly_day [OF f] obtain df where df: "f = df * msPerDay" "\<bar>df\<bar> \<le> 10000000"
    by blast
  from parseDateOnly_day [OF t] obtain dt where dt: "t = dt * msPerDay" "\<bar>dt\<bar> \<le> 10000000"
    by blast
  from b have nn: "\<not> isNullish fv" by (cases fv) auto
  have fb: "\<bar>f\<bar> + msPerDay \<le> 8640000000000000"
    using df by (simp add: msPerDay_def abs_mult)
  have tb: "\<bar>t\<bar> + msPerDay \<le> 8640000000000000"
    using dt by (simp add: msPerDay_def abs_mult)
  have "applyDateFilter h (JStr a) fv
          = Inr (Day (f + z) \<le> Day (r + z) \<and> Day (r + z) \<le> Day (t + z))"
    using a nn fb tb
    by (intro applyDateFilter_fixed(3) [OF fixed])
       (simp_all add: new_Date_def ToPrimitive_def Date_parse_def r b f c t)
  also have "Day (f + z) \<le> Day (r + z) \<longleftrightarrow> f \<le> r"
    by (simp add: dr df Day_of_day) (simp add: msPerDay_def)
  also have "Day (r + z) \<le> Day (t + z) \<longleftrightarrow> r \<le> t"
    by (simp add: dr dt Day_of_day) (simp add: msPerDay_def)
  finally show ?thesis .
qed

subsection \<open>Empty filter list\<close>

text \<open>C3: for every record sequence \<open>R\<close>, filtering with the empty condition list returns
  exactly \<open>R\<close>: the same records in the same order, and no exception.\<close>

theorem filterEmployees_empty: "filterEmployees h R [] = Inr R"
  by (simp add: filterEmployees_def)

theorem filterEmployees_empty_witness:
  "filterEmployees sampleHost [employee2, strippedRecord, employee1] []
     = Inr [employee2, strippedRecord, employee1]"
  by (rule filterEmployees_empty)

subsection \<open>Single select\<close>

text \<open>C6: the single-select evaluator returns, under \<^verbatim>\<open>is\<close>, whether record value and
  filter value are strictly equal, and under \<^verbatim>\<open>isNot\<close> whether they are not; on strings
  that is string equality and inequality. An empty, \<^verbatim>\<open>null\<close> or \<^verbatim>\<open>undefined\<close> record
  value gives false under every operator and for every filter value, \<^verbatim>\<open>isNot\<close>
  included.\<close>

theorem applySingleSelectFilter_semantics:
  "applySingleSelectFilter rv ''is'' fv = (truthy rv \<and> strict_eq rv fv) \<and>
   applySingleSelectFilter rv ''isNot'' fv = (truthy rv \<and> \<not> strict_eq rv fv) \<and>
   applySingleSelectFilter (JStr s) ''is'' (JStr f) = (s \<noteq> [] \<and> s = f) \<and>
   applySingleSelectFilter (JStr s) ''isNot'' (JStr f) = (s \<noteq> [] \<and> s \<noteq> f) \<and>
   applySingleSelectFilter (JStr []) op fv = False \<and>
   applySingleSelectFilter JNull op fv = False \<and>
   applySingleSelectFilter JUndefined op fv = False"
  by (simp add: applySingleSelectFilter_def)

theorem applySingleSelectFilter_semantics_witness:
  "applySingleSelectFilter (JStr ''Sales'') ''is'' (JStr ''Sales'') \<and>
   \<not> applySingleSelectFilter (JStr ''Sales'') ''isNot'' (JStr ''Sales'') \<and>
   applySingleSelectFilter (JStr ''Sales'') ''isNot'' (JStr ''HR'') \<and>
   \<not> applySingleSelectFilter (JStr []) ''isNot'' (JStr ''HR'') \<and>
   \<not> applySingleSelectFilter JNull ''isNot'' (JStr ''HR'')"
  using applySingleSelectFilter_semantics [of "JStr ''Sales''" "JStr ''Sales''" "''Sales''" "''Sales''" "''isNot''"]
        applySingleSelectFilter_semantics [of "JStr ''Sales''" "JStr ''HR''" "''Sales''" "''HR''" "''isNot''"]
  by simp

subsection \<open>Null safety\<close>

text \<open>C7: for every record, field key, operator and filter value, when the value
  resolved for the field is \<^verbatim>\<open>null\<close> or \<^verbatim>\<open>undefined\<close> (a missing property, a missing
  intermediate path segment, or what a custom accessor returned), the condition does not
  match: evaluation returns false and does not raise.\<close>

theorem null_value_never_matches:
  "getFieldValue record (cond_field c) = JNull \<or> getFieldValue record (cond_field c) = JUndefined
   \<Longrightarrow> applyFilterCondition h record c = Inr False"
  by (auto simp: applyFilterCondition_def Let_def split: option.splits)

theorem null_value_never_matches_witness:
  "getFieldValue strippedRecord ''address.city'' = JNull \<and>
   applyFilterCondition sampleHost strippedRecord
     \<lparr>cond_id = ''f1'', cond_field = ''address.city'', cond_operator = ''isNot'',
      cond_value = JStr ''Austin''\<rparr> = Inr False \<and>
   getFieldValue strippedRecord ''name'' = JNull \<and>
   applyFilterCondition sampleHost strippedRecord
     \<lparr>cond_id = ''f2'', cond_field = ''name'', cond_operator = ''doesNotContain'',
      cond_value = JNull\<rparr> = Inr False"
proof -
  have a: "getFieldValue strippedRecord ''address.city'' = JNull"
    by (simp add: getFieldValue_def getFieldDefinition_address_city mkField_def
        getNestedValue_def strippedRecord_def optChain_def)
  have b: "getFieldValue strippedRecord ''name'' = JNull"
    by (simp add: getFieldValue_def getFieldDefinition_name mkField_def
        strippedRecord_def optChain_def)
  show ?thesis
    using a b
      null_value_never_matches [of strippedRecord
        "\<lparr>cond_id = ''f1'', cond_field = ''address.city'', cond_operator = ''isNot'',
          cond_value = JStr ''Austin''\<rparr>" sampleHost]
      null_value_never_matches [of strippedRecord
        "\<lparr>cond_id = ''f2'', cond_field = ''name'', cond_operator = ''doesNotContain'',
          cond_value = JNull\<rparr>" sampleHost]
    by simp
qed

subsection \<open>Idempotence\<close>

text \<open>C9: for every record sequence \<open>R\<close> and condition list \<open>C\<close>, filtering the result of
  a filter pass again with \<open>C\<close> gives the result of the first pass; when the first pass
  raises, so does the composition.\<close>

theorem filterEmployees_idempotent:
  "(case filterEmployees h R C of Inl e \<Rightarrow> Inl e | Inr R' \<Rightarrow> filterEmployees h R' C)
     = filterEmployees h R C"
  by (auto simp: filterEmployees_def split: sum.splits dest: filter_js_fixed)

theorem filterEmployees_idempotent_witness:
  "(case filterEmployees sampleHost [employee1, employee2]
           [\<lparr>cond_id = ''f1'', cond_field = ''department'', cond_operator = ''is'',
             cond_value = JStr ''Engineering''\<rparr>] of
      Inl e \<Rightarrow> Inl e
    | Inr R' \<Rightarrow>
        filterEmployees sampleHost R'
          [\<lparr>cond_id = ''f1'', cond_field = ''department'', cond_operator = ''is'',
            cond_value = JStr ''Engineering''\<rparr>])
     = Inr [employee1]"
proof -
  have "filterEmployees sampleHost [employee1, employee2]
          [\<lparr>cond_id = ''f1'', cond_field = ''department'', cond_operator = ''is'',
            cond_value = JStr ''Engineering''\<rparr>] = Inr [employee1]"
    by code_simp
  then show ?thesis
    using filterEmployees_idempotent [where h = sampleHost and R = "[employee1, employee2]"
        and C = "[\<lparr>cond_id = ''f1'', cond_field = ''department'', cond_operator = ''is'',
           cond_value = JStr ''Engineering''\<rparr>]"]
    by simp
qed

subsection \<open>Order of the conditions\<close>

text \<open>The claim as stated fails: \<^verbatim>\<open>every\<close> stops at the first condition that is false,
  so a condition that raises is reached in one order and not in the other. The first
  employee is active; the second condition has the value \<^verbatim>\<open>null\<close> of an unset filter.\<close>

theorem filterEmployees_order_counterexample:
  "filterEmployees sampleHost [employee1]
     [\<lparr>cond_id = ''f1'', cond_field = ''isActive'', cond_operator = ''is'',
       cond_value = JBool False\<rparr>,
      \<lparr>cond_id = ''f2'', cond_field = ''name'', cond_operator = ''contains'',
       cond_value = JNull\<rparr>] = Inr [] \<and>
   filterEmployees sampleHost [employee1]
     [\<lparr>cond_id = ''f2'', cond_field = ''name'', cond_operator = ''contains'',
       cond_value = JNull\<rparr>,
      \<lparr>cond_id = ''f1'', cond_field = ''isActive'', cond_operator = ''is'',
       cond_value = JBool False\<rparr>] = Inl TypeError"
  by code_simp

text \<open>C8 (amended): for every record sequence \<open>R\<close> and conditions \<open>c1\<close>, \<open>c2\<close> whose
  evaluation raises on no record of \<open>R\<close>, filtering with \<open>[c1, c2]\<close> and with \<open>[c2, c1]\<close>
  gives the same result. That is so in particular when the validator accepts both
  conditions and the records are of type \<^verbatim>\<open>Employee\<close>.\<close>

theorem filterEmployees_commute:
  assumes "(\<forall>r \<in> set R. applyFilterCondition h r c1 \<noteq> Inl TypeError \<and>
                         applyFilterCondition h r c2 \<noteq> Inl TypeError) \<or>
           (list_all isEmployee R \<and> validateFilterCondition c1 \<and> validateFilterCondition c2)"
  shows "filterEmployees h R [c1, c2] = filterEmployees h R [c2, c1]"
proof -
  have ok: "applyFilterCondition h r c1 \<noteq> Inl TypeError \<and>
            applyFilterCondition h r c2 \<noteq> Inl TypeError" if "r \<in> set R" for r
    using assms that valid_never_raises [of r c1 h] valid_never_raises [of r c2 h]
    by (auto simp: list_all_iff)
  have "\<And>r. r \<in> set R \<Longrightarrow>
      every (\<lambda>c. applyFilterCondition h r c) [c1, c2]
        = every (\<lambda>c. applyFilterCondition h r c) [c2, c1]"
    using ok by (intro every_swap) auto
  then have "filter_js (\<lambda>r. every (\<lambda>c. applyFilterCondition h r c) [c1, c2]) R
           = filter_js (\<lambda>r. every (\<lambda>c. applyFilterCondition h r c) [c2, c1]) R"
    by (rule filter_js_cong)
  then show ?thesis by (simp add: filterEmployees_def)
qed

theorem filterEmployees_commute_witness:
  "list_all isEmployee [employee1, employee2] \<and>
   validateFilterCondition
     \<lparr>cond_id = ''f1'', cond_field = ''department'', cond_operator = ''is'',
      cond_value = JStr ''Engineering''\<rparr> \<and>
   validateFilterCondition
     \<lparr>cond_id = ''f2'', cond_field = ''salary'', cond_operator = ''between'',
      cond_value = JObj 8 [(''min'', JNum (Fin 80000)), (''max'', JNum (Fin 120000))]\<rparr> \<and>
   filterEmployees sampleHost [employee1, employee2]
     [\<lparr>cond_id = ''f1'', cond_field = ''department'', cond_operator = ''is'',
       cond_value = JStr ''Engineering''\<rparr>,
      \<lparr>cond_id = ''f2'', cond_field = ''salary'', cond_operator = ''between'',
       cond_value = JObj 8 [(''min'', JNum (Fin 80000)), (''max'', JNum (Fin 120000))]\<rparr>]
   = filterEmployees sampleHost [employee1, employee2]
     [\<lparr>cond_id = ''f2'', cond_field = ''salary'', cond_operator = ''between'',
       cond_value = JObj 8 [(''min'', JNum (Fin 80000)), (''max'', JNum (Fin 120000))]\<rparr>,
      \<lparr>cond_id = ''f1'', cond_field = ''department'', cond_operator = ''is'',
       cond_value = JStr ''Engineering''\<rparr>]"
proof -
  have e: "list_all isEmployee [employee1, employee2]"
    by (simp add: isEmployee_employee1 isEmployee_employee2)
  have v1: "validateFilterCondition
     \<lparr>cond_id = ''f1'', cond_field = ''department'', cond_operator = ''is'',
      cond_value = JStr ''Engineering''\<rparr>"
    by code_simp
  have v2: "validateFilterCondition
     \<lparr>cond_id = ''f2'', cond_field = ''salary'', cond_operator = ''between'',
      cond_value = JObj 8 [(''min'', JNum (Fin 80000)), (''max'', JNum (Fin 120000))]\<rparr>"
    by code_simp
  from e v1 v2 show ?thesis
    using filterEmployees_commute [where h = sampleHost and R = "[employee1, employee2]"
        and ?c1.0 = "\<lparr>cond_id = ''f1'', cond_field = ''department'', cond_operator = ''is'',
          cond_value = JStr ''Engineering''\<rparr>"
        and ?c2.0 = "\<lparr>cond_id = ''f2'', cond_field = ''salary'', cond_operator = ''between'',
          cond_value = JObj 8 [(''min'', JNum (Fin 80000)), (''max'', JNum (Fin 120000))]\<rparr>"]
    by blast
qed

subsection \<open>Exceptions\<close>

text \<open>The claim as stated fails: a filter value of the wrong shape makes the evaluator
  raise. Here a string reaches the multi-select evaluator where an array is expected,
  and \<^verbatim>\<open>filterValue.some\<close> is not a function.\<close>

theorem evaluation_raises_counterexample:
  "applyFilterCondition sampleHost employee1
     \<lparr>cond_id = ''f1'', cond_field = ''skills'', cond_operator = ''in'',
      cond_value = JStr ''React''\<rparr> = Inl TypeError"
  by code_simp

text \<open>C1 (amended): evaluating a condition that \<^verbatim>\<open>validateFilterCondition\<close> accepts
  against a record of type \<^verbatim>\<open>Employee\<close> returns a boolean and never raises. The
  evaluators themselves do not check the shape of their arguments. Say that a value
  cannot be converted when it is an object with an own property \<^verbatim>\<open>toString\<close> or an array
  that holds such an object. The text evaluator raises exactly when the record value is
  truthy and the record value or the filter value is not a string. The number evaluator
  raises exactly when the record value is present, the operator is one of the four
  relational ones and the record value or the filter value cannot be converted. The date
  evaluator raises exactly when the record value is truthy and the record value cannot be
  converted, or the filter value is \<^verbatim>\<open>null\<close> or \<^verbatim>\<open>undefined\<close>, or its \<^verbatim>\<open>from\<close> or \<^verbatim>\<open>to\<close>
  cannot be converted. The amount evaluator raises exactly when the record value is
  present and the filter value is \<^verbatim>\<open>null\<close> or \<^verbatim>\<open>undefined\<close>, or the record value or
  \<^verbatim>\<open>min\<close> cannot be converted, or the record value is at least \<^verbatim>\<open>min\<close> and \<^verbatim>\<open>max\<close>
  cannot be converted. The multi-select evaluator raises exactly when the record value is
  an array, the operator is \<^verbatim>\<open>in\<close> or \<^verbatim>\<open>notIn\<close> and the filter value is not an array. A
  condition on a single-select or boolean field never raises.\<close>

theorem evaluation_raises_exactly:
  "(applyTextFilter rv op fv = Inl TypeError \<longleftrightarrow>
      truthy rv \<and> (typeof rv \<noteq> ''string'' \<or> typeof fv \<noteq> ''string'')) \<and>
   (applyNumberFilter h rv op fv = Inl TypeError \<longleftrightarrow>
      \<not> isNullish rv \<and>
      op \<in> {''greaterThan'', ''lessThan'', ''greaterThanOrEqual'', ''lessThanOrEqual''} \<and>
      (toPrimitiveThrows rv \<or> toPrimitiveThrows fv)) \<and>
   (applyDateFilter h rv fv = Inl TypeError \<longleftrightarrow>
      truthy rv \<and> (toPrimitiveThrows rv \<or> isNullish fv \<or>
        toPrimitiveThrows (getProp fv ''from'') \<or> toPrimitiveThrows (getProp fv ''to''))) \<and>
   (applyAmountFilter h rv fv = Inl TypeError \<longleftrightarrow>
      \<not> isNullish rv \<and> (isNullish fv \<or> toPrimitiveThrows rv \<or>
        toPrimitiveThrows (getProp fv ''min'') \<or>
        (js_ge h rv (getProp fv ''min'') = Inr True \<and>
         toPrimitiveThrows (getProp fv ''max'')))) \<and>
   (applyMultiSelectFilter rv op fv = Inl TypeError \<longleftrightarrow>
      isArray rv \<and> (op = ''in'' \<or> op = ''notIn'') \<and> \<not> isArray fv) \<and>
   (getFieldDefinition (cond_field c) = Some fd \<and>
    (type fd = SingleSelect \<or> type fd = Boolean) \<longrightarrow>
      (\<exists>b. applyFilterCondition h r c = Inr b)) \<and>
   (isEmployee r \<and> validateFilterCondition c \<longrightarrow> (\<exists>b. applyFilterCondition h r c = Inr b))"
proof (intro conjI)
  show "applyTextFilter rv op fv = Inl TypeError \<longleftrightarrow>
      truthy rv \<and> (typeof rv \<noteq> ''string'' \<or> typeof fv \<noteq> ''string'')"
    by (rule applyTextFilter_raises_iff)
  show "applyNumberFilter h rv op fv = Inl TypeError \<longleftrightarrow>
      \<not> isNullish rv \<and>
      op \<in> {''greaterThan'', ''lessThan'', ''greaterThanOrEqual'', ''lessThanOrEqual''} \<and>
      (toPrimitiveThrows rv \<or> toPrimitiveThrows fv)"
    by (rule applyNumberFilter_raises_iff)
  show "applyDateFilter h rv fv = Inl TypeError \<longleftrightarrow>
      truthy rv \<and> (toPrimitiveThrows rv \<or> isNullish fv \<or>
        toPrimitiveThrows (getProp fv ''from'') \<or> toPrimitiveThrows (getProp fv ''to''))"
    by (rule applyDateFilter_raises_iff)
  show "applyAmountFilter h rv fv = Inl TypeError \<longleftrightarrow>
      \<not> isNullish rv \<and> (isNullish fv \<or> toPrimitiveThrows rv \<or>
        toPrimitiveThrows (getProp fv ''min'') \<or>
        (js_ge h rv (getProp fv ''min'') = Inr True \<and>
         toPrimitiveThrows (getProp fv ''max'')))"
    by (rule applyAmountFilter_raises_iff)
  show "applyMultiSelectFilter rv op fv = Inl TypeError \<longleftrightarrow>
      isArray rv \<and> (op = ''in'' \<or> op = ''notIn'') \<and> \<not> isArray fv"
    by (rule applyMultiSelectFilter_raises_iff)
  show "getFieldDefinition (cond_field c) = Some fd \<and>
    (type fd = SingleSelect \<or> type fd = Boolean) \<longrightarrow>
      (\<exists>b. applyFilterCondition h r c = Inr b)"
    using select_boolean_never_raise [of c fd h r] by blast
  show "isEmployee r \<and> validateFilterCondition c \<longrightarrow> (\<exists>b. applyFilterCondition h r c = Inr b)"
    using valid_never_raises [of r c h] by blast
qed

theorem evaluation_raises_exactly_witness:
  "isEmployee employee1 \<and>
   validateFilterCondition
     \<lparr>cond_id = ''f1'', cond_field = ''skills'', cond_operator = ''in'',
      cond_value = JArr 9 [JStr ''Go'', JStr ''Rust'']\<rparr> \<and>
   (\<exists>b. applyFilterCondition sampleHost employee1
      \<lparr>cond_id = ''f1'', cond_field = ''skills'', cond_operator = ''in'',
       cond_value = JArr 9 [JStr ''Go'', JStr ''Rust'']\<rparr> = Inr b) \<and>
   applyTextFilter (JNum (Fin 5)) ''contains'' (JStr ''a'') = Inl TypeError \<and>
   applyTextFilter (JStr ''Jane'') ''contains'' JNull = Inl TypeError \<and>
   applyTextFilter (JStr ''Jane'') ''contains'' (JStr ''a'') \<noteq> Inl TypeError \<and>
   applyNumberFilter sampleHost (JNum (Fin 3)) ''greaterThan''
     (JObj 9 [(''toString'', JNum (Fin 1))]) = Inl TypeError \<and>
   applyNumberFilter sampleHost (JNum (Fin 3)) ''equals''
     (JObj 9 [(''toString'', JNum (Fin 1))]) \<noteq> Inl TypeError \<and>
   applyDateFilter sampleHost (JObj 9 [(''toString'', JNum (Fin 1))]) (JStr ''x'')
     = Inl TypeError \<and>
   applyAmountFilter sampleHost (JNum (Fin 3)) JNull = Inl TypeError"
proof -
  have v: "validateFilterCondition
     \<lparr>cond_id = ''f1'', cond_field = ''skills'', cond_operator = ''in'',
      cond_value = JArr 9 [JStr ''Go'', JStr ''Rust'']\<rparr>"
    by code_simp
  show ?thesis
    using v isEmployee_employee1
      evaluation_raises_exactly [where rv = "JNum (Fin 5)" and op = "''contains''"
        and fv = "JStr ''a''" and h = sampleHost and r = employee1 and c =
        "\<lparr>cond_id = ''f1'', cond_field = ''skills'', cond_operator = ''in'',
          cond_value = JArr 9 [JStr ''Go'', JStr ''Rust'']\<rparr>"]
      evaluation_raises_exactly [where rv = "JStr ''Jane''" and op = "''contains''"
        and fv = JNull and h = sampleHost]
      evaluation_raises_exactly [where rv = "JStr ''Jane''" and op = "''contains''"
        and fv = "JStr ''a''" and h = sampleHost]
      evaluation_raises_exactly [where rv = "JNum (Fin 3)" and op = "''greaterThan''"
        and fv = "JObj 9 [(''toString'', JNum (Fin 1))]" and h = sampleHost]
      evaluation_raises_exactly [where rv = "JNum (Fin 3)" and op = "''equals''"
        and fv = "JObj 9 [(''toString'', JNum (Fin 1))]" and h = sampleHost]
      evaluation_raises_exactly [where rv = "JObj 9 [(''toString'', JNum (Fin 1))]"
        and fv = "JStr ''x''" and h = sampleHost]
      evaluation_raises_exactly [where rv = "JNum (Fin 3)" and fv = JNull and h = sampleHost]
    by simp
qed

subsection \<open>Unrecognised operators\<close>

text \<open>The claim as stated fails: the boolean evaluator is not given the operator, so
  \<^verbatim>\<open>contains\<close> on the boolean field \<^verbatim>\<open>isActive\<close> matches an active employee.\<close>

theorem unrecognised_operator_counterexample:
  "applyFilterCondition sampleHost employee1
     \<lparr>cond_id = ''f1'', cond_field = ''isActive'', cond_operator = ''contains'',
      cond_value = JBool True\<rparr> = Inr True"
  by code_simp

text \<open>C2 (amended): the text, number, single-select and multi-select evaluators never
  return true for an operator outside their own set: the number, single-select and
  multi-select evaluators return false, the text evaluator returns false or raises on an
  operand that is not a string. The date, amount and boolean evaluators take no operator:
  on a field of one of these types the result of a condition is the same for every
  operator. Operators are checked by \<^verbatim>\<open>validateFilterCondition\<close>, which accepts only an
  operator the field declares: on a boolean field only \<^verbatim>\<open>is\<close>, on a date or amount field
  only \<^verbatim>\<open>between\<close>.\<close>

theorem unrecognised_operator:
  "(op \<notin> set textOperators \<longrightarrow>
      applyTextFilter rv op fv = Inr False \<or> applyTextFilter rv op fv = Inl TypeError) \<and>
   (op \<notin> set textOperators \<and> typeof rv = ''string'' \<and> typeof fv = ''string'' \<longrightarrow>
      applyTextFilter rv op fv = Inr False) \<and>
   (op \<notin> set numberOperators \<longrightarrow> applyNumberFilter h rv op fv = Inr False) \<and>
   (op \<noteq> ''is'' \<and> op \<noteq> ''isNot'' \<longrightarrow> \<not> applySingleSelectFilter rv op fv) \<and>
   (op \<noteq> ''in'' \<and> op \<noteq> ''notIn'' \<longrightarrow> applyMultiSelectFilter rv op fv = Inr False) \<and>
   (getFieldDefinition (cond_field c) = Some fd \<and>
    (type fd = Date \<or> type fd = Amount \<or> type fd = Boolean) \<longrightarrow>
      applyFilterCondition h r (c\<lparr>cond_operator := op\<rparr>) = applyFilterCondition h r c) \<and>
   (validateFilterCondition c \<and> getFieldDefinition (cond_field c) = Some fd \<longrightarrow>
      cond_operator c \<in> set (operators fd) \<and>
      (type fd = Boolean \<longrightarrow> cond_operator c = ''is'') \<and>
      (type fd = Date \<or> type fd = Amount \<longrightarrow> cond_operator c = ''between''))"
proof -
  have "op \<notin> set numberOperators \<longrightarrow> applyNumberFilter h rv op fv = Inr False"
    by (simp add: applyNumberFilter_def numberOperators_def)
  moreover have "op \<noteq> ''is'' \<and> op \<noteq> ''isNot'' \<longrightarrow> \<not> applySingleSelectFilter rv op fv"
    by (simp add: applySingleSelectFilter_def)
  moreover have "op \<noteq> ''in'' \<and> op \<noteq> ''notIn'' \<longrightarrow> applyMultiSelectFilter rv op fv = Inr False"
    by (simp add: applyMultiSelectFilter_def)
  moreover have "op \<notin> set textOperators \<and> typeof rv = ''string'' \<and> typeof fv = ''string'' \<longrightarrow>
      applyTextFilter rv op fv = Inr False"
    using applyTextFilter_unknown_operator [of op rv fv] applyTextFilter_raises_iff [of rv op fv]
    by auto
  ultimately show ?thesis
    using applyTextFilter_unknown_operator [of op rv fv] operator_ignored [of c fd h r op]
      valid_operator [of c fd]
    by blast
qed

theorem unrecognised_operator_witness:
  "applyTextFilter (JStr ''Jane'') ''between'' (JStr ''a'') = Inr False \<and>
   applyNumberFilter sampleHost (JNum (Fin 3)) ''contains'' (JNum (Fin 3)) = Inr False \<and>
   \<not> applySingleSelectFilter (JStr ''HR'') ''equals'' (JStr ''HR'') \<and>
   applyMultiSelectFilter (JArr 1 [JStr ''Go'']) ''is'' (JArr 2 [JStr ''Go'']) = Inr False \<and>
   applyFilterCondition sampleHost employee1
     \<lparr>cond_id = ''f1'', cond_field = ''isActive'', cond_operator = ''contains'',
      cond_value = JBool True\<rparr>
   = applyFilterCondition sampleHost employee1
     \<lparr>cond_id = ''f1'', cond_field = ''isActive'', cond_operator = ''is'',
      cond_value = JBool True\<rparr> \<and>
   \<not> validateFilterCondition
     \<lparr>cond_id = ''f1'', cond_field = ''isActive'', cond_operator = ''contains'',
      cond_value = JBool True\<rparr>"
proof -
  obtain fd where fd: "getFieldDefinition ''isActive'' = Some fd" "type fd = Boolean"
    using getFieldDefinition_isActive by blast
  have 1: "''contains'' \<notin> set numberOperators"
    by (simp add: numberOperators_def)
  have 2: "''between'' \<notin> set textOperators"
    by (simp add: textOperators_def)
  show ?thesis
    using fd 1 2
      unrecognised_operator [where op = "''between''" and rv = "JStr ''Jane''"
        and fv = "JStr ''a''"]
      unrecognised_operator [where op = "''contains''" and rv = "JNum (Fin 3)"
        and fv = "JNum (Fin 3)" and h = sampleHost and r = employee1 and fd = fd and c =
        "\<lparr>cond_id = ''f1'', cond_field = ''isActive'', cond_operator = ''is'',
          cond_value = JBool True\<rparr>"]
      unrecognised_operator [where op = "''equals''" and rv = "JStr ''HR''"
        and fv = "JStr ''HR''" and h = sampleHost and r = employee1 and fd = fd and c =
        "\<lparr>cond_id = ''f1'', cond_field = ''isActive'', cond_operator = ''contains'',
          cond_value = JBool True\<rparr>"]
      unrecognised_operator [where op = "''is''" and rv = "JArr 1 [JStr ''Go'']"
        and fv = "JArr 2 [JStr ''Go'']" and h = sampleHost and r = employee1 and fd = fd and c =
        "\<lparr>cond_id = ''f1'', cond_field = ''isActive'', cond_operator = ''contains'',
          cond_value = JBool True\<rparr>"]
    by simp
qed

subsection \<open>Validation of a number\<close>

text \<open>The claim as stated fails: the validator tests \<^verbatim>\<open>!isNaN(value)\<close>, which an
  infinite number passes.\<close>

theorem validate_number_counterexample:
  "validateFilterCondition
     \<lparr>cond_id = ''f1'', cond_field = ''projects'', cond_operator = ''equals'',
      cond_value = JNum PosInf\<rparr>"
  by code_simp

text \<open>C4 (amended): for every condition on a field of type number, with an existing
  field definition and a declared operator, \<^verbatim>\<open>validateFilterCondition\<close> returns true
  exactly when the value is a number other than \<^verbatim>\<open>NaN\<close> (the infinities are accepted);
  every value that is not a number is rejected.\<close>

theorem validate_number:
  "getFieldDefinition (cond_field c) = Some fd \<Longrightarrow> type fd = Number \<Longrightarrow>
   cond_operator c \<in> set (operators fd) \<Longrightarrow>
   validateFilterCondition c = (\<exists>n. cond_value c = JNum n \<and> n \<noteq> NaN)"
  by (cases "cond_value c";
      auto simp: validateFilterCondition_def Let_def split: jsval.splits elim: isNaN.elims)

theorem validate_number_witness:
  "validateFilterCondition
     \<lparr>cond_id = ''f1'', cond_field = ''projects'', cond_operator = ''lessThan'',
      cond_value = JNum (Fin 5)\<rparr> \<and>
   validateFilterCondition
     \<lparr>cond_id = ''f1'', cond_field = ''projects'', cond_operator = ''lessThan'',
      cond_value = JNum NegInf\<rparr> \<and>
   \<not> validateFilterCondition
     \<lparr>cond_id = ''f1'', cond_field = ''projects'', cond_operator = ''lessThan'',
      cond_value = JNum NaN\<rparr> \<and>
   \<not> validateFilterCondition
     \<lparr>cond_id = ''f1'', cond_field = ''projects'', cond_operator = ''lessThan'',
      cond_value = JStr ''5''\<rparr>"
proof -
  obtain fd where fd: "getFieldDefinition ''projects'' = Some fd" "type fd = Number"
    and ops: "operators fd = numberOperators"
    using getFieldDefinition_projects by blast
  have 1: "''lessThan'' \<in> set (operators fd)"
    by (simp add: ops numberOperators_def)
  show ?thesis
    using validate_number [where fd = fd and c =
        "\<lparr>cond_id = ''f1'', cond_field = ''projects'', cond_operator = ''lessThan'',
          cond_value = JNum (Fin 5)\<rparr>"]
      validate_number [where fd = fd and c =
        "\<lparr>cond_id = ''f1'', cond_field = ''projects'', cond_operator = ''lessThan'',
          cond_value = JNum NegInf\<rparr>"]
      validate_number [where fd = fd and c =
        "\<lparr>cond_id = ''f1'', cond_field = ''projects'', cond_operator = ''lessThan'',
          cond_value = JNum NaN\<rparr>"]
      validate_number [where fd = fd and c =
        "\<lparr>cond_id = ''f1'', cond_field = ''projects'', cond_operator = ''lessThan'',
          cond_value = JStr ''5''\<rparr>"]
      fd 1
    by simp
qed

subsection \<open>Date ranges\<close>

text \<open>C5: the claim is that the \<^verbatim>\<open>from\<close> bound is moved to 00:00:00.000 and the
  \<^verbatim>\<open>to\<close> bound to 23:59:59.999 of its day, so that a record whose date falls on the
  calendar day of \<^verbatim>\<open>from\<close> or \<^verbatim>\<open>to\<close> matches. The code parses a date-only bound as
  midnight UTC and then takes the local day of that instant. Five hours west of
  Greenwich the bound \<^verbatim>\<open>2024-03-15\<close> is 19:00 of 14 March, so both bounds are moved to
  14 March, from 00:00:00.000 to 23:59:59.999 local time: a record of 10:00 local time on
  15 March, the day of \<^verbatim>\<open>from\<close> and \<^verbatim>\<open>to\<close>, does not match, and a record of 10:00 local
  time on 14 March does. The record \<^verbatim>\<open>2024-03-15\<close> itself matches, as the claim says.\<close>

theorem applyDateFilter_same_day_rejected:
  "new_Date sampleHost (JStr ''2024-03-15'') = Inr (Some 1710460800000) \<and>
   setHours sampleHost (Some 1710460800000) 0 0 0 0 = Some 1710392400000 \<and>
   setHours sampleHost (Some 1710460800000) 23 59 59 999 = Some 1710478799999 \<and>
   new_Date sampleHost (JStr ''2024-03-15T10:00:00'') = Inr (Some 1710514800000) \<and>
   applyDateFilter sampleHost (JStr ''2024-03-15T10:00:00'')
     (JObj 9 [(''from'', JStr ''2024-03-15''), (''to'', JStr ''2024-03-15'')]) = Inr False \<and>
   applyDateFilter sampleHost (JStr ''2024-03-14T10:00:00'')
     (JObj 9 [(''from'', JStr ''2024-03-15''), (''to'', JStr ''2024-03-15'')]) = Inr True \<and>
   applyDateFilter sampleHost (JStr ''2024-03-15'')
     (JObj 9 [(''from'', JStr ''2024-03-15''), (''to'', JStr ''2024-03-15'')]) = Inr True"
  by code_simp

subsection \<open>Select values and the declared options\<close>

text \<open>C10: the validator does not compare a select value with the options of the
  field. There is a condition on a single-select field whose value is a non-empty string
  outside the options of the field, and a condition on a multi-select field whose value is
  a non-empty array of strings outside the options of the field, and the validator
  accepts both.\<close>

theorem validator_ignores_options:
  "(\<exists>c fd opts s.
      getFieldDefinition (cond_field c) = Some fd \<and> type fd = SingleSelect \<and>
      options fd = Some opts \<and> cond_value c = JStr s \<and> s \<noteq> [] \<and> s \<notin> set opts \<and>
      validateFilterCondition c) \<and>
   (\<exists>c fd opts i xs.
      getFieldDefinition (cond_field c) = Some fd \<and> type fd = MultiSelect \<and>
      options fd = Some opts \<and> cond_value c = JArr i xs \<and> xs \<noteq> [] \<and>
      list_all (\<lambda>x. \<exists>s. x = JStr s \<and> s \<notin> set opts) xs \<and>
      validateFilterCondition c)"
proof (intro conjI)
  obtain fd opts where
    "getFieldDefinition ''department'' = Some fd" "type fd = SingleSelect"
    "options fd = Some opts" "''Legal'' \<notin> set opts"
    by (simp add: getFieldDefinition_def fieldDefinitions_def mkField_def)
  moreover have "validateFilterCondition
     \<lparr>cond_id = ''f1'', cond_field = ''department'', cond_operator = ''is'',
      cond_value = JStr ''Legal''\<rparr>"
    by code_simp
  ultimately show "\<exists>c fd opts s.
      getFieldDefinition (cond_field c) = Some fd \<and> type fd = SingleSelect \<and>
      options fd = Some opts \<and> cond_value c = JStr s \<and> s \<noteq> [] \<and> s \<notin> set opts \<and>
      validateFilterCondition c"
    by (intro exI [where x = "\<lparr>cond_id = ''f1'', cond_field = ''department'',
          cond_operator = ''is'', cond_value = JStr ''Legal''\<rparr>"]
        exI [where x = fd] exI [where x = opts] exI [where x = "''Legal''"]) simp
next
  obtain fd opts where
    "getFieldDefinition ''skills'' = Some fd" "type fd = MultiSelect"
    "options fd = Some opts" "''Cobol'' \<notin> set opts" "''Fortran'' \<notin> set opts"
    by (simp add: getFieldDefinition_def fieldDefinitions_def mkField_def)
  moreover have "validateFilterCondition
     \<lparr>cond_id = ''f2'', cond_field = ''skills'', cond_operator = ''in'',
      cond_value = JArr 9 [JStr ''Cobol'', JStr ''Fortran'']\<rparr>"
    by code_simp
  ultimately show "\<exists>c fd opts i xs.
      getFieldDefinition (cond_field c) = Some fd \<and> type fd = MultiSelect \<and>
      options fd = Some opts \<and> cond_value c = JArr i xs \<and> xs \<noteq> [] \<and>
      list_all (\<lambda>x. \<exists>s. x = JStr s \<and> s \<notin> set opts) xs \<and>
      validateFilterCondition c"
    by (intro exI [where x = "\<lparr>cond_id = ''f2'', cond_field = ''skills'',
          cond_operator = ''in'', cond_value = JArr 9 [JStr ''Cobol'', JStr ''Fortran'']\<rparr>"]
        exI [where x = fd] exI [where x = opts] exI [where x = 9]
        exI [where x = "[JStr ''Cobol'', JStr ''Fortran'']"]) simp
qed

end
